theory Spec2Isabelle
  imports Main "HOL-Library.Word" "HOL-Library.Signed_Division"
begin

section \<open>Exit codes: the table \<open>sdl_exit_code_map\<close> and its lookups\<close>

text \<open>
  \<open>DWORD\<close> and \<open>UINT32\<close> are unsigned 32-bit values; \<open>int\<close> and \<open>INT32\<close> are
  32-bit values read in two's complement (\<open>sint\<close>); \<open>BOOL\<close> is a truth value.
\<close>

type_synonym DWORD = "32 word"
type_synonym UINT32 = "32 word"
type_synonym INT32 = "32 word"

subsection \<open>\<open>enum SDL_EXIT_CODE\<close>\<close>

text \<open>
  The enumerators, the \<open>int\<close> each one stands for (\<open>exit_code_value\<close>), and the
  spelling of each one (\<open>exit_code_spelling\<close>), which is what the preprocessor's
  \<open>#y\<close> yields in the macro \<open>ENTRY\<close> below.
\<close>

datatype SDL_EXIT_CODE =
    SDL_EXIT_SUCCESS
  | SDL_EXIT_DISCONNECT
  | SDL_EXIT_LOGOFF
  | SDL_EXIT_IDLE_TIMEOUT
  | SDL_EXIT_LOGON_TIMEOUT
  | SDL_EXIT_CONN_REPLACED
  | SDL_EXIT_OUT_OF_MEMORY
  | SDL_EXIT_CONN_DENIED
  | SDL_EXIT_CONN_DENIED_FIPS
  | SDL_EXIT_USER_PRIVILEGES
  | SDL_EXIT_FRESH_CREDENTIALS_REQUIRED
  | SDL_EXIT_DISCONNECT_BY_USER
  | SDL_EXIT_LICENSE_INTERNAL
  | SDL_EXIT_LICENSE_NO_LICENSE_SERVER
  | SDL_EXIT_LICENSE_NO_LICENSE
  | SDL_EXIT_LICENSE_BAD_CLIENT_MSG
  | SDL_EXIT_LICENSE_HWID_DOESNT_MATCH
  | SDL_EXIT_LICENSE_BAD_CLIENT
  | SDL_EXIT_LICENSE_CANT_FINISH_PROTOCOL
  | SDL_EXIT_LICENSE_CLIENT_ENDED_PROTOCOL
  | SDL_EXIT_LICENSE_BAD_CLIENT_ENCRYPTION
  | SDL_EXIT_LICENSE_CANT_UPGRADE
  | SDL_EXIT_LICENSE_NO_REMOTE_CONNECTIONS
  | SDL_EXIT_RDP
  | SDL_EXIT_PARSE_ARGUMENTS
  | SDL_EXIT_MEMORY
  | SDL_EXIT_PROTOCOL
  | SDL_EXIT_CONN_FAILED
  | SDL_EXIT_AUTH_FAILURE
  | SDL_EXIT_NEGO_FAILURE
  | SDL_EXIT_LOGON_FAILURE
  | SDL_EXIT_ACCOUNT_LOCKED_OUT
  | SDL_EXIT_PRE_CONNECT_FAILED
  | SDL_EXIT_CONNECT_UNDEFINED
  | SDL_EXIT_POST_CONNECT_FAILED
  | SDL_EXIT_DNS_ERROR
  | SDL_EXIT_DNS_NAME_NOT_FOUND
  | SDL_EXIT_CONNECT_FAILED
  | SDL_EXIT_MCS_CONNECT_INITIAL_ERROR
  | SDL_EXIT_TLS_CONNECT_FAILED
  | SDL_EXIT_INSUFFICIENT_PRIVILEGES
  | SDL_EXIT_CONNECT_CANCELLED
  | SDL_EXIT_CONNECT_TRANSPORT_FAILED
  | SDL_EXIT_CONNECT_PASSWORD_EXPIRED
  | SDL_EXIT_CONNECT_PASSWORD_MUST_CHANGE
  | SDL_EXIT_CONNECT_KDC_UNREACHABLE
  | SDL_EXIT_CONNECT_ACCOUNT_DISABLED
  | SDL_EXIT_CONNECT_PASSWORD_CERTAINLY_EXPIRED
  | SDL_EXIT_CONNECT_CLIENT_REVOKED
  | SDL_EXIT_CONNECT_WRONG_PASSWORD
  | SDL_EXIT_CONNECT_ACCESS_DENIED
  | SDL_EXIT_CONNECT_ACCOUNT_RESTRICTION
  | SDL_EXIT_CONNECT_ACCOUNT_EXPIRED
  | SDL_EXIT_CONNECT_LOGON_TYPE_NOT_GRANTED
  | SDL_EXIT_CONNECT_NO_OR_MISSING_CREDENTIALS
  | SDL_EXIT_UNKNOWN

primrec exit_code_value :: "SDL_EXIT_CODE \<Rightarrow> INT32" where
    "exit_code_value SDL_EXIT_SUCCESS = 0"
  | "exit_code_value SDL_EXIT_DISCONNECT = 1"
  | "exit_code_value SDL_EXIT_LOGOFF = 2"
  | "exit_code_value SDL_EXIT_IDLE_TIMEOUT = 3"
  | "exit_code_value SDL_EXIT_LOGON_TIMEOUT = 4"
  | "exit_code_value SDL_EXIT_CONN_REPLACED = 5"
  | "exit_code_value SDL_EXIT_OUT_OF_MEMORY = 6"
  | "exit_code_value SDL_EXIT_CONN_DENIED = 7"
  | "exit_code_value SDL_EXIT_CONN_DENIED_FIPS = 8"
  | "exit_code_value SDL_EXIT_USER_PRIVILEGES = 9"
  | "exit_code_value SDL_EXIT_FRESH_CREDENTIALS_REQUIRED = 10"
  | "exit_code_value SDL_EXIT_DISCONNECT_BY_USER = 11"
  | "exit_code_value SDL_EXIT_LICENSE_INTERNAL = 16"
  | "exit_code_value SDL_EXIT_LICENSE_NO_LICENSE_SERVER = 17"
  | "exit_code_value SDL_EXIT_LICENSE_NO_LICENSE = 18"
  | "exit_code_value SDL_EXIT_LICENSE_BAD_CLIENT_MSG = 19"
  | "exit_code_value SDL_EXIT_LICENSE_HWID_DOESNT_MATCH = 20"
  | "exit_code_value SDL_EXIT_LICENSE_BAD_CLIENT = 21"
  | "exit_code_value SDL_EXIT_LICENSE_CANT_FINISH_PROTOCOL = 22"
  | "exit_code_value SDL_EXIT_LICENSE_CLIENT_ENDED_PROTOCOL = 23"
  | "exit_code_value SDL_EXIT_LICENSE_BAD_CLIENT_ENCRYPTION = 24"
  | "exit_code_value SDL_EXIT_LICENSE_CANT_UPGRADE = 25"
  | "exit_code_value SDL_EXIT_LICENSE_NO_REMOTE_CONNECTIONS = 26"
  | "exit_code_value SDL_EXIT_RDP = 32"
  | "exit_code_value SDL_EXIT_PARSE_ARGUMENTS = 128"
  | "exit_code_value SDL_EXIT_MEMORY = 129"
  | "exit_code_value SDL_EXIT_PROTOCOL = 130"
  | "exit_code_value SDL_EXIT_CONN_FAILED = 131"
  | "exit_code_value SDL_EXIT_AUTH_FAILURE = 132"
  | "exit_code_value SDL_EXIT_NEGO_FAILURE = 133"
  | "exit_code_value SDL_EXIT_LOGON_FAILURE = 134"
  | "exit_code_value SDL_EXIT_ACCOUNT_LOCKED_OUT = 135"
  | "exit_code_value SDL_EXIT_PRE_CONNECT_FAILED = 136"
  | "exit_code_value SDL_EXIT_CONNECT_UNDEFINED = 137"
  | "exit_code_value SDL_EXIT_POST_CONNECT_FAILED = 138"
  | "exit_code_value SDL_EXIT_DNS_ERROR = 139"
  | "exit_code_value SDL_EXIT_DNS_NAME_NOT_FOUND = 140"
  | "exit_code_value SDL_EXIT_CONNECT_FAILED = 141"
  | "exit_code_value SDL_EXIT_MCS_CONNECT_INITIAL_ERROR = 142"
  | "exit_code_value SDL_EXIT_TLS_CONNECT_FAILED = 143"
  | "exit_code_value SDL_EXIT_INSUFFICIENT_PRIVILEGES = 144"
  | "exit_code_value SDL_EXIT_CONNECT_CANCELLED = 145"
  | "exit_code_value SDL_EXIT_CONNECT_TRANSPORT_FAILED = 147"
  | "exit_code_value SDL_EXIT_CONNECT_PASSWORD_EXPIRED = 148"
  | "exit_code_value SDL_EXIT_CONNECT_PASSWORD_MUST_CHANGE = 149"
  | "exit_code_value SDL_EXIT_CONNECT_KDC_UNREACHABLE = 150"
  | "exit_code_value SDL_EXIT_CONNECT_ACCOUNT_DISABLED = 151"
  | "exit_code_value SDL_EXIT_CONNECT_PASSWORD_CERTAINLY_EXPIRED = 152"
  | "exit_code_value SDL_EXIT_CONNECT_CLIENT_REVOKED = 153"
  | "exit_code_value SDL_EXIT_CONNECT_WRONG_PASSWORD = 154"
  | "exit_code_value SDL_EXIT_CONNECT_ACCESS_DENIED = 155"
  | "exit_code_value SDL_EXIT_CONNECT_ACCOUNT_RESTRICTION = 156"
  | "exit_code_value SDL_EXIT_CONNECT_ACCOUNT_EXPIRED = 157"
  | "exit_code_value SDL_EXIT_CONNECT_LOGON_TYPE_NOT_GRANTED = 158"
  | "exit_code_value SDL_EXIT_CONNECT_NO_OR_MISSING_CREDENTIALS = 159"
  | "exit_code_value SDL_EXIT_UNKNOWN = 255"

primrec exit_code_spelling :: "SDL_EXIT_CODE \<Rightarrow> string" where
    "exit_code_spelling SDL_EXIT_SUCCESS = ''SDL_EXIT_SUCCESS''"
  | "exit_code_spelling SDL_EXIT_DISCONNECT = ''SDL_EXIT_DISCONNECT''"
  | "exit_code_spelling SDL_EXIT_LOGOFF = ''SDL_EXIT_LOGOFF''"
  | "exit_code_spelling SDL_EXIT_IDLE_TIMEOUT = ''SDL_EXIT_IDLE_TIMEOUT''"
  | "exit_code_spelling SDL_EXIT_LOGON_TIMEOUT = ''SDL_EXIT_LOGON_TIMEOUT''"
  | "exit_code_spelling SDL_EXIT_CONN_REPLACED = ''SDL_EXIT_CONN_REPLACED''"
  | "exit_code_spelling SDL_EXIT_OUT_OF_MEMORY = ''SDL_EXIT_OUT_OF_MEMORY''"
  | "exit_code_spelling SDL_EXIT_CONN_DENIED = ''SDL_EXIT_CONN_DENIED''"
  | "exit_code_spelling SDL_EXIT_CONN_DENIED_FIPS = ''SDL_EXIT_CONN_DENIED_FIPS''"
  | "exit_code_spelling SDL_EXIT_USER_PRIVILEGES = ''SDL_EXIT_USER_PRIVILEGES''"
  | "exit_code_spelling SDL_EXIT_FRESH_CREDENTIALS_REQUIRED = ''SDL_EXIT_FRESH_CREDENTIALS_REQUIRED''"
  | "exit_code_spelling SDL_EXIT_DISCONNECT_BY_USER = ''SDL_EXIT_DISCONNECT_BY_USER''"
  | "exit_code_spelling SDL_EXIT_LICENSE_INTERNAL = ''SDL_EXIT_LICENSE_INTERNAL''"
  | "exit_code_spelling SDL_EXIT_LICENSE_NO_LICENSE_SERVER = ''SDL_EXIT_LICENSE_NO_LICENSE_SERVER''"
  | "exit_code_spelling SDL_EXIT_LICENSE_NO_LICENSE = ''SDL_EXIT_LICENSE_NO_LICENSE''"
  | "exit_code_spelling SDL_EXIT_LICENSE_BAD_CLIENT_MSG = ''SDL_EXIT_LICENSE_BAD_CLIENT_MSG''"
  | "exit_code_spelling SDL_EXIT_LICENSE_HWID_DOESNT_MATCH = ''SDL_EXIT_LICENSE_HWID_DOESNT_MATCH''"
  | "exit_code_spelling SDL_EXIT_LICENSE_BAD_CLIENT = ''SDL_EXIT_LICENSE_BAD_CLIENT''"
  | "exit_code_spelling SDL_EXIT_LICENSE_CANT_FINISH_PROTOCOL = ''SDL_EXIT_LICENSE_CANT_FINISH_PROTOCOL''"
  | "exit_code_spelling SDL_EXIT_LICENSE_CLIENT_ENDED_PROTOCOL = ''SDL_EXIT_LICENSE_CLIENT_ENDED_PROTOCOL''"
  | "exit_code_spelling SDL_EXIT_LICENSE_BAD_CLIENT_ENCRYPTION = ''SDL_EXIT_LICENSE_BAD_CLIENT_ENCRYPTION''"
  | "exit_code_spelling SDL_EXIT_LICENSE_CANT_UPGRADE = ''SDL_EXIT_LICENSE_CANT_UPGRADE''"
  | "exit_code_spelling SDL_EXIT_LICENSE_NO_REMOTE_CONNECTIONS = ''SDL_EXIT_LICENSE_NO_REMOTE_CONNECTIONS''"
  | "exit_code_spelling SDL_EXIT_RDP = ''SDL_EXIT_RDP''"
  | "exit_code_spelling SDL_EXIT_PARSE_ARGUMENTS = ''SDL_EXIT_PARSE_ARGUMENTS''"
  | "exit_code_spelling SDL_EXIT_MEMORY = ''SDL_EXIT_MEMORY''"
  | "exit_code_spelling SDL_EXIT_PROTOCOL = ''SDL_EXIT_PROTOCOL''"
  | "exit_code_spelling SDL_EXIT_CONN_FAILED = ''SDL_EXIT_CONN_FAILED''"
  | "exit_code_spelling SDL_EXIT_AUTH_FAILURE = ''SDL_EXIT_AUTH_FAILURE''"
  | "exit_code_spelling SDL_EXIT_NEGO_FAILURE = ''SDL_EXIT_NEGO_FAILURE''"
  | "exit_code_spelling SDL_EXIT_LOGON_FAILURE = ''SDL_EXIT_LOGON_FAILURE''"
  | "exit_code_spelling SDL_EXIT_ACCOUNT_LOCKED_OUT = ''SDL_EXIT_ACCOUNT_LOCKED_OUT''"
  | "exit_code_spelling SDL_EXIT_PRE_CONNECT_FAILED = ''SDL_EXIT_PRE_CONNECT_FAILED''"
  | "exit_code_spelling SDL_EXIT_CONNECT_UNDEFINED = ''SDL_EXIT_CONNECT_UNDEFINED''"
  | "exit_code_spelling SDL_EXIT_POST_CONNECT_FAILED = ''SDL_EXIT_POST_CONNECT_FAILED''"
  | "exit_code_spelling SDL_EXIT_DNS_ERROR = ''SDL_EXIT_DNS_ERROR''"
  | "exit_code_spelling SDL_EXIT_DNS_NAME_NOT_FOUND = ''SDL_EXIT_DNS_NAME_NOT_FOUND''"
  | "exit_code_spelling SDL_EXIT_CONNECT_FAILED = ''SDL_EXIT_CONNECT_FAILED''"
  | "exit_code_spelling SDL_EXIT_MCS_CONNECT_INITIAL_ERROR = ''SDL_EXIT_MCS_CONNECT_INITIAL_ERROR''"
  | "exit_code_spelling SDL_EXIT_TLS_CONNECT_FAILED = ''SDL_EXIT_TLS_CONNECT_FAILED''"
  | "exit_code_spelling SDL_EXIT_INSUFFICIENT_PRIVILEGES = ''SDL_EXIT_INSUFFICIENT_PRIVILEGES''"
  | "exit_code_spelling SDL_EXIT_CONNECT_CANCELLED = ''SDL_EXIT_CONNECT_CANCELLED''"
  | "exit_code_spelling SDL_EXIT_CONNECT_TRANSPORT_FAILED = ''SDL_EXIT_CONNECT_TRANSPORT_FAILED''"
  | "exit_code_spelling SDL_EXIT_CONNECT_PASSWORD_EXPIRED = ''SDL_EXIT_CONNECT_PASSWORD_EXPIRED''"
  | "exit_code_spelling SDL_EXIT_CONNECT_PASSWORD_MUST_CHANGE = ''SDL_EXIT_CONNECT_PASSWORD_MUST_CHANGE''"
  | "exit_code_spelling SDL_EXIT_CONNECT_KDC_UNREACHABLE = ''SDL_EXIT_CONNECT_KDC_UNREACHABLE''"
  | "exit_code_spelling SDL_EXIT_CONNECT_ACCOUNT_DISABLED = ''SDL_EXIT_CONNECT_ACCOUNT_DISABLED''"
  | "exit_code_spelling SDL_EXIT_CONNECT_PASSWORD_CERTAINLY_EXPIRED = ''SDL_EXIT_CONNECT_PASSWORD_CERTAINLY_EXPIRED''"
  | "exit_code_spelling SDL_EXIT_CONNECT_CLIENT_REVOKED = ''SDL_EXIT_CONNECT_CLIENT_REVOKED''"
  | "exit_code_spelling SDL_EXIT_CONNECT_WRONG_PASSWORD = ''SDL_EXIT_CONNECT_WRONG_PASSWORD''"
  | "exit_code_spelling SDL_EXIT_CONNECT_ACCESS_DENIED = ''SDL_EXIT_CONNECT_ACCESS_DENIED''"
  | "exit_code_spelling SDL_EXIT_CONNECT_ACCOUNT_RESTRICTION = ''SDL_EXIT_CONNECT_ACCOUNT_RESTRICTION''"
  | "exit_code_spelling SDL_EXIT_CONNECT_ACCOUNT_EXPIRED = ''SDL_EXIT_CONNECT_ACCOUNT_EXPIRED''"
  | "exit_code_spelling SDL_EXIT_CONNECT_LOGON_TYPE_NOT_GRANTED = ''SDL_EXIT_CONNECT_LOGON_TYPE_NOT_GRANTED''"
  | "exit_code_spelling SDL_EXIT_CONNECT_NO_OR_MISSING_CREDENTIALS = ''SDL_EXIT_CONNECT_NO_OR_MISSING_CREDENTIALS''"
  | "exit_code_spelling SDL_EXIT_UNKNOWN = ''SDL_EXIT_UNKNOWN''"

subsection \<open>Protocol error codes\<close>

text \<open>
  The protocol error codes are macros of the protocol library's header
  \<open>freerdp/error.h\<close>, which is not among the sources at hand.  The table names
  them symbolically; a valuation \<open>h\<close> of the names (the header) is a parameter of
  everything below.
\<close>

datatype freerdp_error_name =
    FREERDP_ERROR_SUCCESS
  | FREERDP_ERROR_NONE
  | ERRINFO_LOGOFF_BY_USER
  | FREERDP_ERROR_AUTHENTICATION_FAILED
  | FREERDP_ERROR_SECURITY_NEGO_CONNECT_FAILED
  | FREERDP_ERROR_CONNECT_LOGON_FAILURE
  | FREERDP_ERROR_CONNECT_ACCOUNT_LOCKED_OUT
  | FREERDP_ERROR_PRE_CONNECT_FAILED
  | FREERDP_ERROR_CONNECT_UNDEFINED
  | FREERDP_ERROR_POST_CONNECT_FAILED
  | FREERDP_ERROR_DNS_ERROR
  | FREERDP_ERROR_DNS_NAME_NOT_FOUND
  | FREERDP_ERROR_CONNECT_FAILED
  | FREERDP_ERROR_MCS_CONNECT_INITIAL_ERROR
  | FREERDP_ERROR_TLS_CONNECT_FAILED
  | FREERDP_ERROR_INSUFFICIENT_PRIVILEGES
  | FREERDP_ERROR_CONNECT_CANCELLED
  | FREERDP_ERROR_CONNECT_TRANSPORT_FAILED
  | FREERDP_ERROR_CONNECT_PASSWORD_EXPIRED
  | FREERDP_ERROR_CONNECT_PASSWORD_MUST_CHANGE
  | FREERDP_ERROR_CONNECT_KDC_UNREACHABLE
  | FREERDP_ERROR_CONNECT_ACCOUNT_DISABLED
  | FREERDP_ERROR_CONNECT_PASSWORD_CERTAINLY_EXPIRED
  | FREERDP_ERROR_CONNECT_CLIENT_REVOKED
  | FREERDP_ERROR_CONNECT_WRONG_PASSWORD
  | FREERDP_ERROR_CONNECT_ACCESS_DENIED
  | FREERDP_ERROR_CONNECT_ACCOUNT_RESTRICTION
  | FREERDP_ERROR_CONNECT_ACCOUNT_EXPIRED
  | FREERDP_ERROR_CONNECT_LOGON_TYPE_NOT_GRANTED
  | FREERDP_ERROR_CONNECT_NO_OR_MISSING_CREDENTIALS

definition freerdp_error_names :: "freerdp_error_name list" where
  "freerdp_error_names = [
     FREERDP_ERROR_SUCCESS,
     FREERDP_ERROR_NONE,
     ERRINFO_LOGOFF_BY_USER,
     FREERDP_ERROR_AUTHENTICATION_FAILED,
     FREERDP_ERROR_SECURITY_NEGO_CONNECT_FAILED,
     FREERDP_ERROR_CONNECT_LOGON_FAILURE,
     FREERDP_ERROR_CONNECT_ACCOUNT_LOCKED_OUT,
     FREERDP_ERROR_PRE_CONNECT_FAILED,
     FREERDP_ERROR_CONNECT_UNDEFINED,
     FREERDP_ERROR_POST_CONNECT_FAILED,
     FREERDP_ERROR_DNS_ERROR,
     FREERDP_ERROR_DNS_NAME_NOT_FOUND,
     FREERDP_ERROR_CONNECT_FAILED,
     FREERDP_ERROR_MCS_CONNECT_INITIAL_ERROR,
     FREERDP_ERROR_TLS_CONNECT_FAILED,
     FREERDP_ERROR_INSUFFICIENT_PRIVILEGES,
     FREERDP_ERROR_CONNECT_CANCELLED,
     FREERDP_ERROR_CONNECT_TRANSPORT_FAILED,
     FREERDP_ERROR_CONNECT_PASSWORD_EXPIRED,
     FREERDP_ERROR_CONNECT_PASSWORD_MUST_CHANGE,
     FREERDP_ERROR_CONNECT_KDC_UNREACHABLE,
     FREERDP_ERROR_CONNECT_ACCOUNT_DISABLED,
     FREERDP_ERROR_CONNECT_PASSWORD_CERTAINLY_EXPIRED,
     FREERDP_ERROR_CONNECT_CLIENT_REVOKED,
     FREERDP_ERROR_CONNECT_WRONG_PASSWORD,
     FREERDP_ERROR_CONNECT_ACCESS_DENIED,
     FREERDP_ERROR_CONNECT_ACCOUNT_RESTRICTION,
     FREERDP_ERROR_CONNECT_ACCOUNT_EXPIRED,
     FREERDP_ERROR_CONNECT_LOGON_TYPE_NOT_GRANTED,
     FREERDP_ERROR_CONNECT_NO_OR_MISSING_CREDENTIALS
   ]"

text \<open>
  A sample header, with the values \<open>error.h\<close> gives the names (the connect class is
  \<open>0x0002\<close> in the upper half-word).  Only the fact that the values are pairwise
  distinct is ever used.
\<close>

primrec freerdp_error_h :: "freerdp_error_name \<Rightarrow> DWORD" where
    "freerdp_error_h FREERDP_ERROR_SUCCESS = 0x00000000"
  | "freerdp_error_h FREERDP_ERROR_NONE = 0xFFFFFFFF"
  | "freerdp_error_h ERRINFO_LOGOFF_BY_USER = 0x0000000C"
  | "freerdp_error_h FREERDP_ERROR_AUTHENTICATION_FAILED = 0x00020009"
  | "freerdp_error_h FREERDP_ERROR_SECURITY_NEGO_CONNECT_FAILED = 0x0002000C"
  | "freerdp_error_h FREERDP_ERROR_CONNECT_LOGON_FAILURE = 0x00020014"
  | "freerdp_error_h FREERDP_ERROR_CONNECT_ACCOUNT_LOCKED_OUT = 0x00020018"
  | "freerdp_error_h FREERDP_ERROR_PRE_CONNECT_FAILED = 0x00020001"
  | "freerdp_error_h FREERDP_ERROR_CONNECT_UNDEFINED = 0x00020002"
  | "freerdp_error_h FREERDP_ERROR_POST_CONNECT_FAILED = 0x00020003"
  | "freerdp_error_h FREERDP_ERROR_DNS_ERROR = 0x00020004"
  | "freerdp_error_h FREERDP_ERROR_DNS_NAME_NOT_FOUND = 0x00020005"
  | "freerdp_error_h FREERDP_ERROR_CONNECT_FAILED = 0x00020006"
  | "freerdp_error_h FREERDP_ERROR_MCS_CONNECT_INITIAL_ERROR = 0x00020007"
  | "freerdp_error_h FREERDP_ERROR_TLS_CONNECT_FAILED = 0x00020008"
  | "freerdp_error_h FREERDP_ERROR_INSUFFICIENT_PRIVILEGES = 0x0002000A"
  | "freerdp_error_h FREERDP_ERROR_CONNECT_CANCELLED = 0x0002000B"
  | "freerdp_error_h FREERDP_ERROR_CONNECT_TRANSPORT_FAILED = 0x0002000D"
  | "freerdp_error_h FREERDP_ERROR_CONNECT_PASSWORD_EXPIRED = 0x0002000E"
  | "freerdp_error_h FREERDP_ERROR_CONNECT_PASSWORD_MUST_CHANGE = 0x00020013"
  | "freerdp_error_h FREERDP_ERROR_CONNECT_KDC_UNREACHABLE = 0x00020011"
  | "freerdp_error_h FREERDP_ERROR_CONNECT_ACCOUNT_DISABLED = 0x00020012"
  | "freerdp_error_h FREERDP_ERROR_CONNECT_PASSWORD_CERTAINLY_EXPIRED = 0x0002000F"
  | "freerdp_error_h FREERDP_ERROR_CONNECT_CLIENT_REVOKED = 0x00020010"
  | "freerdp_error_h FREERDP_ERROR_CONNECT_WRONG_PASSWORD = 0x00020015"
  | "freerdp_error_h FREERDP_ERROR_CONNECT_ACCESS_DENIED = 0x00020016"
  | "freerdp_error_h FREERDP_ERROR_CONNECT_ACCOUNT_RESTRICTION = 0x00020017"
  | "freerdp_error_h FREERDP_ERROR_CONNECT_ACCOUNT_EXPIRED = 0x00020019"
  | "freerdp_error_h FREERDP_ERROR_CONNECT_LOGON_TYPE_NOT_GRANTED = 0x0002001A"
  | "freerdp_error_h FREERDP_ERROR_CONNECT_NO_OR_MISSING_CREDENTIALS = 0x0002001B"

subsection \<open>The table\<close>

record sdl_exit_code_map_t =
  error :: DWORD
  code :: INT32
  code_tag :: string

text \<open>The macro \<open>ENTRY(x, y)\<close> expands to the initialiser \<open>{ x, y, #y }\<close>.\<close>

definition ENTRY :: "DWORD \<Rightarrow> SDL_EXIT_CODE \<Rightarrow> sdl_exit_code_map_t" where
  "ENTRY x y = \<lparr>error = x, code = exit_code_value y, code_tag = exit_code_spelling y\<rparr>"

definition sdl_exit_code_map :: "(freerdp_error_name \<Rightarrow> DWORD) \<Rightarrow> sdl_exit_code_map_t list" where
  "sdl_exit_code_map h = [
     ENTRY (h FREERDP_ERROR_SUCCESS) SDL_EXIT_SUCCESS,
     ENTRY (h FREERDP_ERROR_NONE) SDL_EXIT_DISCONNECT,
     ENTRY (h FREERDP_ERROR_NONE) SDL_EXIT_LOGOFF,
     ENTRY (h FREERDP_ERROR_NONE) SDL_EXIT_IDLE_TIMEOUT,
     ENTRY (h FREERDP_ERROR_NONE) SDL_EXIT_LOGON_TIMEOUT,
     ENTRY (h FREERDP_ERROR_NONE) SDL_EXIT_CONN_REPLACED,
     ENTRY (h FREERDP_ERROR_NONE) SDL_EXIT_OUT_OF_MEMORY,
     ENTRY (h FREERDP_ERROR_NONE) SDL_EXIT_CONN_DENIED,
     ENTRY (h FREERDP_ERROR_NONE) SDL_EXIT_CONN_DENIED_FIPS,
     ENTRY (h FREERDP_ERROR_NONE) SDL_EXIT_USER_PRIVILEGES,
     ENTRY (h FREERDP_ERROR_NONE) SDL_EXIT_FRESH_CREDENTIALS_REQUIRED,
     ENTRY (h ERRINFO_LOGOFF_BY_USER) SDL_EXIT_DISCONNECT_BY_USER,
     ENTRY (h FREERDP_ERROR_NONE) SDL_EXIT_UNKNOWN,
     ENTRY (h FREERDP_ERROR_NONE) SDL_EXIT_LICENSE_INTERNAL,
     ENTRY (h FREERDP_ERROR_NONE) SDL_EXIT_LICENSE_NO_LICENSE_SERVER,
     ENTRY (h FREERDP_ERROR_NONE) SDL_EXIT_LICENSE_NO_LICENSE,
     ENTRY (h FREERDP_ERROR_NONE) SDL_EXIT_LICENSE_BAD_CLIENT_MSG,
     ENTRY (h FREERDP_ERROR_NONE) SDL_EXIT_LICENSE_HWID_DOESNT_MATCH,
     ENTRY (h FREERDP_ERROR_NONE) SDL_EXIT_LICENSE_BAD_CLIENT,
     ENTRY (h FREERDP_ERROR_NONE) SDL_EXIT_LICENSE_CANT_FINISH_PROTOCOL,
     ENTRY (h FREERDP_ERROR_NONE) SDL_EXIT_LICENSE_CLIENT_ENDED_PROTOCOL,
     ENTRY (h FREERDP_ERROR_NONE) SDL_EXIT_LICENSE_BAD_CLIENT_ENCRYPTION,
     ENTRY (h FREERDP_ERROR_NONE) SDL_EXIT_LICENSE_CANT_UPGRADE,
     ENTRY (h FREERDP_ERROR_NONE) SDL_EXIT_LICENSE_NO_REMOTE_CONNECTIONS,
     ENTRY (h FREERDP_ERROR_NONE) SDL_EXIT_LICENSE_CANT_UPGRADE,
     ENTRY (h FREERDP_ERROR_NONE) SDL_EXIT_RDP,
     ENTRY (h FREERDP_ERROR_NONE) SDL_EXIT_PARSE_ARGUMENTS,
     ENTRY (h FREERDP_ERROR_NONE) SDL_EXIT_MEMORY,
     ENTRY (h FREERDP_ERROR_NONE) SDL_EXIT_PROTOCOL,
     ENTRY (h FREERDP_ERROR_NONE) SDL_EXIT_CONN_FAILED,
     ENTRY (h FREERDP_ERROR_AUTHENTICATION_FAILED) SDL_EXIT_AUTH_FAILURE,
     ENTRY (h FREERDP_ERROR_SECURITY_NEGO_CONNECT_FAILED) SDL_EXIT_NEGO_FAILURE,
     ENTRY (h FREERDP_ERROR_CONNECT_LOGON_FAILURE) SDL_EXIT_LOGON_FAILURE,
     ENTRY (h FREERDP_ERROR_CONNECT_ACCOUNT_LOCKED_OUT) SDL_EXIT_ACCOUNT_LOCKED_OUT,
     ENTRY (h FREERDP_ERROR_PRE_CONNECT_FAILED) SDL_EXIT_PRE_CONNECT_FAILED,
     ENTRY (h FREERDP_ERROR_CONNECT_UNDEFINED) SDL_EXIT_CONNECT_UNDEFINED,
     ENTRY (h FREERDP_ERROR_POST_CONNECT_FAILED) SDL_EXIT_POST_CONNECT_FAILED,
     ENTRY (h FREERDP_ERROR_DNS_ERROR) SDL_EXIT_DNS_ERROR,
     ENTRY (h FREERDP_ERROR_DNS_NAME_NOT_FOUND) SDL_EXIT_DNS_NAME_NOT_FOUND,
     ENTRY (h FREERDP_ERROR_CONNECT_FAILED) SDL_EXIT_CONNECT_FAILED,
     ENTRY (h FREERDP_ERROR_MCS_CONNECT_INITIAL_ERROR) SDL_EXIT_MCS_CONNECT_INITIAL_ERROR,
     ENTRY (h FREERDP_ERROR_TLS_CONNECT_FAILED) SDL_EXIT_TLS_CONNECT_FAILED,
     ENTRY (h FREERDP_ERROR_INSUFFICIENT_PRIVILEGES) SDL_EXIT_INSUFFICIENT_PRIVILEGES,
     ENTRY (h FREERDP_ERROR_CONNECT_CANCELLED) SDL_EXIT_CONNECT_CANCELLED,
     ENTRY (h FREERDP_ERROR_CONNECT_TRANSPORT_FAILED) SDL_EXIT_CONNECT_TRANSPORT_FAILED,
     ENTRY (h FREERDP_ERROR_CONNECT_PASSWORD_EXPIRED) SDL_EXIT_CONNECT_PASSWORD_EXPIRED,
     ENTRY (h FREERDP_ERROR_CONNECT_PASSWORD_MUST_CHANGE) SDL_EXIT_CONNECT_PASSWORD_MUST_CHANGE,
     ENTRY (h FREERDP_ERROR_CONNECT_KDC_UNREACHABLE) SDL_EXIT_CONNECT_KDC_UNREACHABLE,
     ENTRY (h FREERDP_ERROR_CONNECT_ACCOUNT_DISABLED) SDL_EXIT_CONNECT_ACCOUNT_DISABLED,
     ENTRY (h FREERDP_ERROR_CONNECT_PASSWORD_CERTAINLY_EXPIRED) SDL_EXIT_CONNECT_PASSWORD_CERTAINLY_EXPIRED,
     ENTRY (h FREERDP_ERROR_CONNECT_CLIENT_REVOKED) SDL_EXIT_CONNECT_CLIENT_REVOKED,
     ENTRY (h FREERDP_ERROR_CONNECT_WRONG_PASSWORD) SDL_EXIT_CONNECT_WRONG_PASSWORD,
     ENTRY (h FREERDP_ERROR_CONNECT_ACCESS_DENIED) SDL_EXIT_CONNECT_ACCESS_DENIED,
     ENTRY (h FREERDP_ERROR_CONNECT_ACCOUNT_RESTRICTION) SDL_EXIT_CONNECT_ACCOUNT_RESTRICTION,
     ENTRY (h FREERDP_ERROR_CONNECT_ACCOUNT_EXPIRED) SDL_EXIT_CONNECT_ACCOUNT_EXPIRED,
     ENTRY (h FREERDP_ERROR_CONNECT_LOGON_TYPE_NOT_GRANTED) SDL_EXIT_CONNECT_LOGON_TYPE_NOT_GRANTED,
     ENTRY (h FREERDP_ERROR_CONNECT_NO_OR_MISSING_CREDENTIALS) SDL_EXIT_CONNECT_NO_OR_MISSING_CREDENTIALS
   ]"

subsection \<open>The lookups\<close>

text \<open>
  \<open>sdl_map_entry_by_code\<close> and \<open>sdl_map_entry_by_error\<close> scan the table with an index
  \<open>x\<close> running from \<open>0\<close> to \<open>ARRAYSIZE(sdl_exit_code_map)\<close> and return a pointer to
  the first entry that matches, or \<open>NULL\<close> (here \<open>None\<close>).
\<close>

function for_entry_by_code ::
  "sdl_exit_code_map_t list \<Rightarrow> nat \<Rightarrow> INT32 \<Rightarrow> sdl_exit_code_map_t option" where
  "for_entry_by_code tbl x exit_code =
     (if x < length tbl then
        (let cur = tbl ! x in
         if code cur = exit_code then Some cur
         else for_entry_by_code tbl (x + 1) exit_code)
      else None)"
  by pat_completeness auto
termination
  by (relation "measure (\<lambda>(tbl, x, exit_code). length tbl - x)") auto

function for_entry_by_error ::
  "sdl_exit_code_map_t list \<Rightarrow> nat \<Rightarrow> DWORD \<Rightarrow> sdl_exit_code_map_t option" where
  "for_entry_by_error tbl x err =
     (if x < length tbl then
        (let cur = tbl ! x in
         if error cur = err then Some cur
         else for_entry_by_error tbl (x + 1) err)
      else None)"
  by pat_completeness auto
termination
  by (relation "measure (\<lambda>(tbl, x, err). length tbl - x)") auto

declare for_entry_by_code.simps [simp del]
declare for_entry_by_error.simps [simp del]

definition sdl_map_entry_by_code ::
  "(freerdp_error_name \<Rightarrow> DWORD) \<Rightarrow> INT32 \<Rightarrow> sdl_exit_code_map_t option" where
  "sdl_map_entry_by_code h exit_code = for_entry_by_code (sdl_exit_code_map h) 0 exit_code"

definition sdl_map_entry_by_error ::
  "(freerdp_error_name \<Rightarrow> DWORD) \<Rightarrow> DWORD \<Rightarrow> sdl_exit_code_map_t option" where
  "sdl_map_entry_by_error h err = for_entry_by_error (sdl_exit_code_map h) 0 err"

definition sdl_map_error_to_exit_code :: "(freerdp_error_name \<Rightarrow> DWORD) \<Rightarrow> DWORD \<Rightarrow> INT32" where
  "sdl_map_error_to_exit_code h err =
     (case sdl_map_entry_by_error h err of
        Some entry \<Rightarrow> code entry
      | None \<Rightarrow> exit_code_value SDL_EXIT_CONN_FAILED)"

definition sdl_map_error_to_code_tag :: "(freerdp_error_name \<Rightarrow> DWORD) \<Rightarrow> DWORD \<Rightarrow> string option" where
  "sdl_map_error_to_code_tag h err =
     (case sdl_map_entry_by_error h err of
        Some entry \<Rightarrow> Some (code_tag entry)
      | None \<Rightarrow> None)"

definition sdl_map_to_code_tag :: "(freerdp_error_name \<Rightarrow> DWORD) \<Rightarrow> INT32 \<Rightarrow> string option" where
  "sdl_map_to_code_tag h c =
     (case sdl_map_entry_by_code h c of
        Some entry \<Rightarrow> Some (code_tag entry)
      | None \<Rightarrow> None)"


section \<open>The session: events, settings, framebuffer, toolkit\<close>

type_synonym BOOL = bool

subsection \<open>How a call ends\<close>

text \<open>
  A call of the front-end either returns a value, or is stopped in an infinite wait
  because no handle it waits for is signalled (\<open>Blocked\<close>; it goes on only once
  another thread signals one), or ends the process in a failed \<open>WINPR_ASSERT\<close>
  (\<open>Aborted\<close>), or reads a variable that was never written (\<open>Undefined\<close>).
\<close>

datatype 'a outcome = Returned 'a | Blocked | Aborted | Undefined

subsection \<open>Event handles\<close>

text \<open>
  Every event of the front-end is created by \<open>CreateEventA(NULL, TRUE, s, NULL)\<close>: an
  unnamed manual-reset event with initial state \<open>s\<close>.  A \<open>HANDLE\<close> is \<open>NULL\<close>
  (\<open>None\<close>) or such an event with its present state (\<open>Some True\<close>: signalled).
  Whether the library can allocate the event is not the front-end's to decide: it is
  the first argument here.
\<close>

type_synonym HANDLE = "bool option"

definition CreateEventA :: "bool \<Rightarrow> bool \<Rightarrow> HANDLE" where
  "CreateEventA allocated bInitialState = (if allocated then Some bInitialState else None)"

definition SetEvent :: "HANDLE \<Rightarrow> BOOL \<times> HANDLE" where
  "SetEvent hEvent = (case hEvent of None \<Rightarrow> (False, None) | Some _ \<Rightarrow> (True, Some True))"

definition ResetEvent :: "HANDLE \<Rightarrow> BOOL \<times> HANDLE" where
  "ResetEvent hEvent = (case hEvent of None \<Rightarrow> (False, None) | Some _ \<Rightarrow> (True, Some False))"

definition WAIT_OBJECT_0 :: DWORD where
  "WAIT_OBJECT_0 = 0"

definition WAIT_FAILED :: DWORD where
  "WAIT_FAILED = 0xFFFFFFFF"

primrec first_signalled :: "HANDLE list \<Rightarrow> nat option" where
  "first_signalled [] = None"
| "first_signalled (hEvent # rest) =
     (if hEvent = Some True then Some 0 else map_option Suc (first_signalled rest))"

text \<open>
  \<open>WaitForMultipleObjects(n, handles, FALSE, INFINITE)\<close> on manual-reset events: it
  fails on a \<open>NULL\<close> handle, returns \<open>WAIT_OBJECT_0 + i\<close> for the least index \<open>i\<close> of
  a signalled handle, and does not return while none is signalled (\<open>None\<close>).
\<close>

definition WaitForMultipleObjects :: "HANDLE list \<Rightarrow> DWORD option" where
  "WaitForMultipleObjects handles =
     (if None \<in> set handles then Some WAIT_FAILED
      else map_option (\<lambda>i. WAIT_OBJECT_0 + of_nat i) (first_signalled handles))"

subsection \<open>Settings and framebuffer\<close>

text \<open>
  The operating system identifiers are macros of the protocol library; only the two
  the front-end writes are named, beside a value for every other one.
\<close>

datatype os_major_type = OSMAJORTYPE_UNSPECIFIED | OSMAJORTYPE_UNIX

datatype os_minor_type = OSMINORTYPE_UNSPECIFIED | OSMINORTYPE_NATIVE_SDL

record rdpSettings =
  AuthenticationOnly :: BOOL
  Password :: "string option"
  SmartSizing :: BOOL
  DynamicResolutionUpdate :: BOOL
  Fullscreen :: BOOL
  UseMultimon :: BOOL
  DeactivateClientDecoding :: BOOL
  DesktopWidth :: UINT32
  DesktopHeight :: UINT32
  OsMajorType :: os_major_type
  OsMinorType :: os_minor_type

record GDI_RGN =
  rgn_x :: INT32
  rgn_y :: INT32
  rgn_w :: INT32
  rgn_h :: INT32

text \<open>
  \<open>rdpGdi\<close> with the invalid-region tracker \<open>gdi->primary->hdc->hwnd\<close> it owns:
  \<open>invalid_null\<close> is \<open>hwnd->invalid->null\<close>, \<open>ninvalid\<close> and \<open>cinvalid\<close> are
  \<open>hwnd->ninvalid\<close> and the array \<open>hwnd->cinvalid\<close>, read at indices below
  \<open>ninvalid\<close>.
\<close>

record rdpGdi =
  width :: INT32
  height :: INT32
  suppressOutput :: BOOL
  invalid_null :: BOOL
  ninvalid :: INT32
  cinvalid :: "nat \<Rightarrow> GDI_RGN"

subsection \<open>The windowing toolkit\<close>

text \<open>
  A window pointer is an address, \<open>0\<close> for \<open>NULL\<close>.  The toolkit's windows live
  in a store from addresses to windows.  What the front-end asks the toolkit to
  draw is recorded, call by call, in \<open>sdl_calls\<close>.
\<close>

datatype SDL_WindowFlags = SDL_WINDOW_SHOWN | SDL_WINDOW_ALLOW_HIGHDPI | SDL_WINDOW_FULLSCREEN

record SDL_Window =
  win_w :: INT32
  win_h :: INT32
  win_flags :: "SDL_WindowFlags set"

record SDL_Rect =
  rect_x :: INT32
  rect_y :: INT32
  rect_w :: INT32
  rect_h :: INT32

datatype sdl_call =
    SDL_SetClipRect_primary SDL_Rect
  | SDL_SetClipRect_screen nat SDL_Rect
  | SDL_BlitSurface nat SDL_Rect SDL_Rect
  | SDL_BlitScaled nat SDL_Rect SDL_Rect
  | SDL_UpdateWindowSurface nat

datatype SDL_Event =
    SDL_USEREVENT_UPDATE
  | SDL_USEREVENT_CREATE_WINDOWS
  | SDL_USEREVENT_WINDOW_RESIZEABLE nat BOOL
  | SDL_USEREVENT_WINDOW_FULLSCREEN nat BOOL

datatype pubsub_subscription =
    ChannelConnected_sdl_OnChannelConnectedEventHandler
  | ChannelDisconnected_sdl_OnChannelDisconnectedEventHandler

subsection \<open>\<open>sdlContext\<close>\<close>

record sdl_window_t =
  window :: nat
  offset_x :: INT32
  offset_y :: INT32

text \<open>
  The context of the front-end, with what it reaches through \<open>common.context\<close>
  (settings, \<open>gdi\<close>, the abort event, the publish/subscribe registry), and the state
  of the toolkit it drives (the event queue and its capacity, the windows, the
  addresses still free for new windows, the drawing calls made so far).
  \<open>gdi\<close> is \<open>None\<close> for the \<open>NULL\<close> pointer; the framebuffer that \<open>gdi_init\<close> sets up
  comes with its whole chain \<open>primary->hdc->hwnd->invalid\<close>.  The array \<open>windows\<close>
  is read and written at indices below \<open>windowCount\<close>.
\<close>

record sdlContext =
  settings :: rdpSettings
  gdi :: "rdpGdi option"
  abort_event :: HANDLE
  pubSub :: "pubsub_subscription list"
  windowCount :: nat
  windows :: "nat \<Rightarrow> sdl_window_t"
  highDpi :: BOOL
  resizeable :: BOOL
  fullscreen :: BOOL
  initialize :: HANDLE
  initialized :: HANDLE
  update_complete :: HANDLE
  windows_created :: HANDLE
  event_queue :: "SDL_Event list"
  queue_capacity :: nat
  sdl_windows :: "nat \<rightharpoonup> SDL_Window"
  free_windows :: "nat list"
  sdl_calls :: "sdl_call list"


section \<open>The operations of the front-end\<close>

subsection \<open>The command channel\<close>

text \<open>
  Modelled from the spec: \<open>sdl_push_user_event\<close> is defined in \<open>sdl_utils.c\<close>, which
  is not among the sources at hand.  By the spec's contract of the command channel,
  enqueueing does not block, keeps the order of the commands, and fails only when
  the system's resources are exhausted: here, when the queue is full.
\<close>

definition sdl_push_user_event :: "SDL_Event \<Rightarrow> sdlContext \<Rightarrow> BOOL \<times> sdlContext" where
  "sdl_push_user_event ev sdl =
     (if length (event_queue sdl) < queue_capacity sdl
      then (True, sdl\<lparr>event_queue := event_queue sdl @ [ev]\<rparr>)
      else (False, sdl))"

subsection \<open>The coordinate scaler\<close>

text \<open>
  Modelled from the spec: \<open>sdl_scale_coordinates\<close> is defined outside the sources at
  hand.  By the spec it is a pure function that maps a coordinate of framebuffer
  space to window space, or back when \<open>inverse_p\<close> (the spec's \<open>inverse\<close>) is set, by the ratio of the
  window's size to the framebuffer's size on each axis, in integers.
  \<open>scale_axis W F inverse_p v\<close> is the map on one axis, for window size \<open>W\<close> and
  framebuffer size \<open>F\<close>.
\<close>

definition scale_axis :: "int \<Rightarrow> int \<Rightarrow> bool \<Rightarrow> int \<Rightarrow> int" where
  "scale_axis W F inverse_p v = (if inverse_p then (v * F) div W else (v * W) div F)"

text \<open>
  The scaler finds the window by its identifier among the windows of the session
  (a window's identifier is taken to be its address) and fails when there is none,
  or no framebuffer.  Of the last argument, \<open>scaleSize\<close>, the spec says nothing: it
  plays no part.
\<close>

function for_window_by_id :: "sdlContext \<Rightarrow> nat \<Rightarrow> nat \<Rightarrow> SDL_Window option" where
  "for_window_by_id sdl windowId x =
     (if x < windowCount sdl then
        (if window (windows sdl x) = windowId \<and> sdl_windows sdl windowId \<noteq> None
         then sdl_windows sdl windowId
         else for_window_by_id sdl windowId (x + 1))
      else None)"
  by pat_completeness auto
termination
  by (relation "measure (\<lambda>(sdl, windowId, x). windowCount sdl - x)") auto

declare for_window_by_id.simps [simp del]

definition sdl_scale_coordinates ::
  "sdlContext \<Rightarrow> nat \<Rightarrow> INT32 \<times> INT32 \<Rightarrow> BOOL \<Rightarrow> BOOL \<Rightarrow> BOOL \<times> INT32 \<times> INT32" where
  "sdl_scale_coordinates sdl windowId p inverse_p scaleSize =
     (case (gdi sdl, for_window_by_id sdl windowId 0) of
        (Some g, Some W) \<Rightarrow>
          (True,
           word_of_int (scale_axis (sint (win_w W)) (sint (width g)) inverse_p (sint (fst p))),
           word_of_int (scale_axis (sint (win_h W)) (sint (height g)) inverse_p (sint (snd p))))
      | _ \<Rightarrow> (False, p))"

subsection \<open>Construction\<close>

text \<open>
  \<open>sdl_client_new\<close>, for an instance and a context that are not \<open>NULL\<close>: the
  four events are created; the call succeeds when none of them is \<open>NULL\<close>.  The
  arguments say which of the four allocations succeed.  (The log and the callbacks
  the call installs on the instance are not part of the state kept here.)
\<close>

definition sdl_client_new ::
  "bool \<Rightarrow> bool \<Rightarrow> bool \<Rightarrow> bool \<Rightarrow> sdlContext \<Rightarrow> BOOL \<times> sdlContext" where
  "sdl_client_new a1 a2 a3 a4 sdl =
     (let sdl = sdl\<lparr>initialize := CreateEventA a1 False\<rparr>;
          sdl = sdl\<lparr>initialized := CreateEventA a2 False\<rparr>;
          sdl = sdl\<lparr>update_complete := CreateEventA a3 True\<rparr>;
          sdl = sdl\<lparr>windows_created := CreateEventA a4 False\<rparr>
      in (initialize sdl \<noteq> None \<and> initialized sdl \<noteq> None
            \<and> update_complete sdl \<noteq> None \<and> windows_created sdl \<noteq> None, sdl))"

subsection \<open>The frame gate\<close>

definition sdl_begin_paint :: "sdlContext \<Rightarrow> BOOL outcome \<times> sdlContext" where
  "sdl_begin_paint sdl =
     (case WaitForMultipleObjects [update_complete sdl, abort_event sdl] of
        None \<Rightarrow> (Blocked, sdl)
      | Some status \<Rightarrow>
          if status \<noteq> WAIT_OBJECT_0 then (Returned False, sdl)
          else
            (case ResetEvent (update_complete sdl) of
               (ok, hEvent) \<Rightarrow>
                 let sdl = sdl\<lparr>update_complete := hEvent\<rparr> in
                 if \<not> ok then (Returned False, sdl)
                 else
                   (case gdi sdl of
                      None \<Rightarrow> (Aborted, sdl)
                    | Some g \<Rightarrow>
                        (Returned True,
                         sdl\<lparr>gdi := Some (g\<lparr>invalid_null := True, ninvalid := 0\<rparr>)\<rparr>))))"

definition sdl_end_paint :: "sdlContext \<Rightarrow> BOOL \<times> sdlContext" where
  "sdl_end_paint sdl =
     (case sdl_push_user_event SDL_USEREVENT_UPDATE sdl of
        (ok, sdl) \<Rightarrow> if \<not> ok then (False, sdl) else (True, sdl))"

subsection \<open>The frame compositor\<close>

text \<open>The operator \<open>/\<close> of C on \<open>int\<close>: the quotient, truncated towards zero.\<close>

definition int_div :: "INT32 \<Rightarrow> INT32 \<Rightarrow> INT32" where
  "int_div a b = word_of_int (sint a sdiv sint b)"

definition srcRect_of :: "GDI_RGN \<Rightarrow> SDL_Rect" where
  "srcRect_of rgn = \<lparr>rect_x = rgn_x rgn, rect_y = rgn_y rgn, rect_w = rgn_w rgn, rect_h = rgn_h rgn\<rparr>"

text \<open>
  The loop over the invalid rectangles of the unscaled path,
  \<open>for (INT32 i = 0; i < ninvalid; i++)\<close>.  The counter never leaves
  \<open>0 .. ninvalid\<close>, so it is a natural number here.
\<close>

function for_invalid_blit ::
  "nat \<Rightarrow> sdl_window_t \<Rightarrow> (nat \<Rightarrow> GDI_RGN) \<Rightarrow> INT32 \<Rightarrow> nat \<Rightarrow> sdl_call list \<Rightarrow> sdl_call list" where
  "for_invalid_blit screen win cinv ninv i calls =
     (if int i < sint ninv then
        (let rgn = cinv i;
             srcRect = srcRect_of rgn;
             dstRect = \<lparr>rect_x = offset_x win + rgn_x rgn, rect_y = offset_y win + rgn_y rgn,
                        rect_w = rgn_w rgn, rect_h = rgn_h rgn\<rparr>
         in for_invalid_blit screen win cinv ninv (i + 1)
              (calls @ [SDL_SetClipRect_primary srcRect, SDL_BlitSurface screen srcRect dstRect]))
      else calls)"
  by pat_completeness auto
termination
  by (relation "measure (\<lambda>(screen, win, cinv, ninv, i, calls). nat (sint ninv) - i)") auto

text \<open>The loop over the invalid rectangles of the scaled path.\<close>

function for_invalid_scaled ::
  "sdlContext \<Rightarrow> nat \<Rightarrow> (nat \<Rightarrow> GDI_RGN) \<Rightarrow> INT32 \<Rightarrow> nat \<Rightarrow> sdl_call list \<Rightarrow> sdl_call list" where
  "for_invalid_scaled sdl screen cinv ninv i calls =
     (if int i < sint ninv then
        (let rgn = cinv i;
             srcRect = srcRect_of rgn;
             dstRect = srcRect;
             xy = snd (sdl_scale_coordinates sdl screen (rect_x dstRect, rect_y dstRect) False True);
             dstRect = dstRect\<lparr>rect_x := fst xy, rect_y := snd xy\<rparr>;
             wh = snd (sdl_scale_coordinates sdl screen (rect_w dstRect, rect_h dstRect) False True);
             dstRect = dstRect\<lparr>rect_w := fst wh, rect_h := snd wh\<rparr>
         in for_invalid_scaled sdl screen cinv ninv (i + 1)
              (calls @ [SDL_SetClipRect_primary srcRect, SDL_SetClipRect_screen screen dstRect,
                        SDL_BlitScaled screen srcRect dstRect]))
      else calls)"
  by pat_completeness auto
termination
  by (relation "measure (\<lambda>(sdl, screen, cinv, ninv, i, calls). nat (sint ninv) - i)") auto

declare for_invalid_blit.simps [simp del]
declare for_invalid_scaled.simps [simp del]

text \<open>
  One round of the loop over the windows.  \<open>SDL_GetWindowSize\<close> writes \<open>w\<close> and
  \<open>h\<close> only for a window of the toolkit; for any other pointer the unscaled path
  reads them unwritten.  The surface \<open>screen\<close> of a window is named by the window's
  pointer.
\<close>

definition paint_window :: "rdpGdi \<Rightarrow> nat \<Rightarrow> sdlContext \<Rightarrow> unit outcome \<times> sdlContext" where
  "paint_window g x sdl =
     (let win = windows sdl x;
          size = map_option (\<lambda>W. (win_w W, win_h W)) (sdl_windows sdl (window win));
          win = win\<lparr>offset_x := 0, offset_y := 0\<rparr>
      in
      if \<not> SmartSizing (settings sdl) then
        (case size of
           None \<Rightarrow> (Undefined, sdl\<lparr>windows := (windows sdl)(x := win)\<rparr>)
         | Some (w, h) \<Rightarrow>
             let win = (if width g <s w then win\<lparr>offset_x := int_div (w - width g) 2\<rparr> else win);
                 win = (if height g <s h then win\<lparr>offset_y := int_div (h - height g) 2\<rparr> else win);
                 sdl = sdl\<lparr>windows := (windows sdl)(x := win)\<rparr>;
                 calls = for_invalid_blit (window win) win (cinvalid g) (ninvalid g) 0 (sdl_calls sdl)
             in (Returned (), sdl\<lparr>sdl_calls := calls @ [SDL_UpdateWindowSurface (window win)]\<rparr>))
      else
        (let sdl = sdl\<lparr>windows := (windows sdl)(x := win)\<rparr>;
             calls = for_invalid_scaled sdl (window win) (cinvalid g) (ninvalid g) 0 (sdl_calls sdl)
         in (Returned (), sdl\<lparr>sdl_calls := calls @ [SDL_UpdateWindowSurface (window win)]\<rparr>)))"

function for_windows_paint :: "rdpGdi \<Rightarrow> nat \<Rightarrow> nat \<Rightarrow> sdlContext \<Rightarrow> unit outcome \<times> sdlContext" where
  "for_windows_paint g n x sdl =
     (if x < n then
        (case paint_window g x sdl of
           (Returned _, sdl') \<Rightarrow> for_windows_paint g n (x + 1) sdl'
         | (stopped, sdl') \<Rightarrow> (stopped, sdl'))
      else (Returned (), sdl))"
  by pat_completeness auto
termination
  by (relation "measure (\<lambda>(g, n, x, sdl). n - x)") auto

declare for_windows_paint.simps [simp del]

definition sdl_end_paint_process :: "sdlContext \<Rightarrow> BOOL outcome \<times> sdlContext" where
  "sdl_end_paint_process sdl =
     (case gdi sdl of
        None \<Rightarrow> (Aborted, sdl)
      | Some g \<Rightarrow>
          (case (if suppressOutput g \<or> invalid_null g then (Returned (), sdl)
                 else if ninvalid g <s 1 then (Returned (), sdl)
                 else for_windows_paint g (windowCount sdl) 0 sdl) of
             (Returned _, sdl') \<Rightarrow>
               (case SetEvent (update_complete sdl') of
                  (ok, hEvent) \<Rightarrow> (Returned ok, sdl'\<lparr>update_complete := hEvent\<rparr>))
           | (Blocked, sdl') \<Rightarrow> (Blocked, sdl')
           | (Aborted, sdl') \<Rightarrow> (Aborted, sdl')
           | (Undefined, sdl') \<Rightarrow> (Undefined, sdl')))"


subsection \<open>The handshake\<close>

definition sdl_wait_for_init :: "sdlContext \<Rightarrow> BOOL outcome \<times> sdlContext" where
  "sdl_wait_for_init sdl =
     (case SetEvent (initialize sdl) of
        (ok, hEvent) \<Rightarrow>
          let sdl = sdl\<lparr>initialize := hEvent\<rparr> in
          if \<not> ok then (Returned False, sdl)
          else
            (case WaitForMultipleObjects [initialized sdl, abort_event sdl] of
               None \<Rightarrow> (Blocked, sdl)
             | Some rc \<Rightarrow> (Returned (rc = WAIT_OBJECT_0), sdl)))"

text \<open>
  \<open>sdl_pre_connect\<close>.  \<open>sdl_detect_monitors\<close> is defined in \<open>sdl_monitor.c\<close>, not
  among the sources at hand: it is a parameter, returning its result, the two sizes
  it writes, and the context as it leaves it.  \<open>freerdp_settings_set_bool\<close> on a
  setting that exists stores the value and succeeds.
\<close>

definition sdl_pre_connect ::
  "(sdlContext \<Rightarrow> (BOOL \<times> UINT32 \<times> UINT32) \<times> sdlContext) \<Rightarrow> sdlContext
     \<Rightarrow> BOOL outcome \<times> sdlContext" where
  "sdl_pre_connect sdl_detect_monitors sdl =
     (let sdl = sdl\<lparr>highDpi := True\<rparr>;
          sdl = sdl\<lparr>settings := (settings sdl)\<lparr>OsMajorType := OSMAJORTYPE_UNIX\<rparr>\<rparr>;
          sdl = sdl\<lparr>settings := (settings sdl)\<lparr>OsMinorType := OSMINORTYPE_NATIVE_SDL\<rparr>\<rparr>;
          sdl = sdl\<lparr>pubSub := pubSub sdl @ [ChannelConnected_sdl_OnChannelConnectedEventHandler]\<rparr>;
          sdl = sdl\<lparr>pubSub :=
                  pubSub sdl @ [ChannelDisconnected_sdl_OnChannelDisconnectedEventHandler]\<rparr>
      in
      if \<not> AuthenticationOnly (settings sdl) then
        (case sdl_wait_for_init sdl of
           (Returned ok, sdl) \<Rightarrow>
             if \<not> ok then (Returned False, sdl)
             else
               (case sdl_detect_monitors sdl of
                  ((found, maxWidth, maxHeight), sdl) \<Rightarrow>
                    if \<not> found then (Returned False, sdl)
                    else if maxWidth \<noteq> 0 \<and> maxHeight \<noteq> 0 \<and> \<not> SmartSizing (settings sdl) then
                      (Returned True,
                       sdl\<lparr>settings :=
                             (settings sdl)\<lparr>DesktopWidth := maxWidth, DesktopHeight := maxHeight\<rparr>\<rparr>)
                    else (Returned True, sdl))
         | (stopped, sdl) \<Rightarrow> (stopped, sdl))
      else if Password (settings sdl) = None then (Returned False, sdl)
      else (Returned True, sdl\<lparr>settings := (settings sdl)\<lparr>DeactivateClientDecoding := True\<rparr>\<rparr>))"

text \<open>
  \<open>SDL_CreateWindow\<close> returns a new window of the toolkit, or \<open>NULL\<close> when the
  toolkit cannot make one (here: when it has no address left).  The window's title
  and position play no part in what follows and are left out.
\<close>

definition SDL_CreateWindow ::
  "INT32 \<Rightarrow> INT32 \<Rightarrow> SDL_WindowFlags set \<Rightarrow> sdlContext \<Rightarrow> nat \<times> sdlContext" where
  "SDL_CreateWindow w h flags sdl =
     (case free_windows sdl of
        [] \<Rightarrow> (0, sdl)
      | p # rest \<Rightarrow>
          (p, sdl\<lparr>sdl_windows := (sdl_windows sdl)(p \<mapsto> \<lparr>win_w = w, win_h = h, win_flags = flags\<rparr>),
                 free_windows := rest\<rparr>))"

function for_create_windows ::
  "UINT32 \<Rightarrow> UINT32 \<Rightarrow> nat \<Rightarrow> nat \<Rightarrow> sdlContext \<Rightarrow> BOOL \<times> sdlContext" where
  "for_create_windows w h n x sdl =
     (if x < n then
        (let flags = {SDL_WINDOW_SHOWN};
             flags = (if highDpi sdl then flags \<union> {SDL_WINDOW_ALLOW_HIGHDPI} else flags);
             flags = (if Fullscreen (settings sdl) \<or> UseMultimon (settings sdl)
                      then flags \<union> {SDL_WINDOW_FULLSCREEN} else flags)
         in case SDL_CreateWindow w h flags sdl of
              (p, sdl) \<Rightarrow>
                let sdl = sdl\<lparr>windows := (windows sdl)(x := (windows sdl x)\<lparr>window := p\<rparr>)\<rparr> in
                if p = 0 then (False, sdl)
                else for_create_windows w h n (x + 1) sdl)
      else (True, sdl))"
  by pat_completeness auto
termination
  by (relation "measure (\<lambda>(w, h, n, x, sdl). n - x)") auto

declare for_create_windows.simps [simp del]

definition sdl_create_windows :: "sdlContext \<Rightarrow> BOOL \<times> sdlContext" where
  "sdl_create_windows sdl =
     (let sdl = sdl\<lparr>windowCount := 1\<rparr>;
          w = DesktopWidth (settings sdl);
          h = DesktopHeight (settings sdl)
      in case for_create_windows w h (windowCount sdl) 0 sdl of
           (rc, sdl) \<Rightarrow>
             (case SetEvent (windows_created sdl) of
                (ok, hEvent) \<Rightarrow>
                  let sdl = sdl\<lparr>windows_created := hEvent\<rparr> in
                  if \<not> ok then (False, sdl) else (rc, sdl)))"

definition sdl_wait_create_windows :: "sdlContext \<Rightarrow> BOOL outcome \<times> sdlContext" where
  "sdl_wait_create_windows sdl =
     (case ResetEvent (windows_created sdl) of
        (ok, hEvent) \<Rightarrow>
          let sdl = sdl\<lparr>windows_created := hEvent\<rparr> in
          if \<not> ok then (Returned False, sdl)
          else
            (case sdl_push_user_event SDL_USEREVENT_CREATE_WINDOWS sdl of
               (ok, sdl) \<Rightarrow>
                 if \<not> ok then (Returned False, sdl)
                 else
                   (case WaitForMultipleObjects [initialized sdl, abort_event sdl] of
                      None \<Rightarrow> (Blocked, sdl)
                    | Some rc \<Rightarrow> (Returned (rc = WAIT_OBJECT_0), sdl))))"

subsection \<open>Window flags\<close>

text \<open>
  The loop of \<open>update_resizeable\<close> and of \<open>update_fullscreen\<close> over the windows:
  one command per window, built by \<open>command\<close> from the window's pointer.
\<close>

function for_windows_push ::
  "(nat \<Rightarrow> SDL_Event) \<Rightarrow> nat \<Rightarrow> nat \<Rightarrow> sdlContext \<Rightarrow> BOOL \<times> sdlContext" where
  "for_windows_push command n x sdl =
     (if x < n then
        (case sdl_push_user_event (command (window (windows sdl x))) sdl of
           (ok, sdl') \<Rightarrow>
             if \<not> ok then (False, sdl')
             else for_windows_push command n (x + 1) sdl')
      else (True, sdl))"
  by pat_completeness auto
termination
  by (relation "measure (\<lambda>(command, n, x, sdl). n - x)") auto

declare for_windows_push.simps [simp del]

definition update_resizeable :: "sdlContext \<Rightarrow> BOOL \<Rightarrow> BOOL \<times> sdlContext" where
  "update_resizeable sdl enable =
     (let dyn = DynamicResolutionUpdate (settings sdl);
          smart = SmartSizing (settings sdl);
          use = ((dyn \<and> enable) \<or> smart)
      in case for_windows_push (\<lambda>p. SDL_USEREVENT_WINDOW_RESIZEABLE p use) (windowCount sdl) 0 sdl of
           (ok, sdl') \<Rightarrow> if \<not> ok then (False, sdl') else (True, sdl'\<lparr>resizeable := use\<rparr>))"

definition update_fullscreen :: "sdlContext \<Rightarrow> BOOL \<Rightarrow> BOOL \<times> sdlContext" where
  "update_fullscreen sdl enter =
     (case for_windows_push (\<lambda>p. SDL_USEREVENT_WINDOW_FULLSCREEN p enter) (windowCount sdl) 0 sdl of
        (ok, sdl') \<Rightarrow> if \<not> ok then (False, sdl') else (True, sdl'\<lparr>fullscreen := enter\<rparr>))"


subsection \<open>The unscaled path, in closed form\<close>

text \<open>
  What one round of the loop over the windows does on the unscaled path: the window
  with its offsets as the round leaves them, and the toolkit calls the round makes.
\<close>


definition centred :: "rdpGdi \<Rightarrow> SDL_Window \<Rightarrow> sdl_window_t \<Rightarrow> sdl_window_t" where
  "centred g W win =
     (let win = win\<lparr>offset_x := 0, offset_y := 0\<rparr>;
          win = (if width g <s win_w W then win\<lparr>offset_x := int_div (win_w W - width g) 2\<rparr> else win);
          win = (if height g <s win_h W then win\<lparr>offset_y := int_div (win_h W - height g) 2\<rparr> else win)
      in win)"

definition blit_calls :: "nat \<Rightarrow> sdl_window_t \<Rightarrow> GDI_RGN \<Rightarrow> sdl_call list" where
  "blit_calls screen win rgn =
     [SDL_SetClipRect_primary (srcRect_of rgn),
      SDL_BlitSurface screen (srcRect_of rgn)
        \<lparr>rect_x = offset_x win + rgn_x rgn, rect_y = offset_y win + rgn_y rgn,
         rect_w = rgn_w rgn, rect_h = rgn_h rgn\<rparr>]"

definition unscaled_calls :: "rdpGdi \<Rightarrow> sdl_window_t \<Rightarrow> sdl_call list" where
  "unscaled_calls g win =
     concat (map (\<lambda>i. blit_calls (window win) win (cinvalid g i)) [0..<nat (sint (ninvalid g))])
     @ [SDL_UpdateWindowSurface (window win)]"


section \<open>Sample sessions\<close>

text \<open>
  Concrete sessions on which the theorems below are instantiated: a context as
  allocated, the same after \<open>sdl_client_new\<close>, after the handshake, and while
  painting a framebuffer of 1024 by 768 with two invalid rectangles into one window
  of 1280 by 1000 (or, for the scaler, of 640 by 480).
\<close>

definition example_settings :: rdpSettings where
  "example_settings =
     \<lparr>AuthenticationOnly = False, Password = None, SmartSizing = False,
      DynamicResolutionUpdate = True, Fullscreen = False, UseMultimon = False,
      DeactivateClientDecoding = False, DesktopWidth = 1024, DesktopHeight = 768,
      OsMajorType = OSMAJORTYPE_UNSPECIFIED, OsMinorType = OSMINORTYPE_UNSPECIFIED\<rparr>"

definition example_gdi :: rdpGdi where
  "example_gdi =
     \<lparr>width = 1024, height = 768, suppressOutput = False, invalid_null = False, ninvalid = 2,
      cinvalid = (\<lambda>i. if i = 0 then \<lparr>rgn_x = 0, rgn_y = 0, rgn_w = 64, rgn_h = 64\<rparr>
                     else \<lparr>rgn_x = 100, rgn_y = 200, rgn_w = 32, rgn_h = 16\<rparr>)\<rparr>"

definition example_context :: sdlContext where
  "example_context =
     \<lparr>settings = example_settings, gdi = None, abort_event = Some False, pubSub = [],
      windowCount = 0, windows = (\<lambda>x. \<lparr>window = 0, offset_x = 0, offset_y = 0\<rparr>),
      highDpi = False, resizeable = False, fullscreen = False,
      initialize = None, initialized = None, update_complete = None, windows_created = None,
      event_queue = [], queue_capacity = 4, sdl_windows = Map.empty, free_windows = [1],
      sdl_calls = []\<rparr>"

definition example_constructed :: sdlContext where
  "example_constructed =
     example_context\<lparr>initialize := Some False, initialized := Some False,
                     update_complete := Some True, windows_created := Some False\<rparr>"

definition example_handshaken :: sdlContext where
  "example_handshaken =
     example_constructed\<lparr>initialize := Some True, initialized := Some True\<rparr>"

definition example_painting :: sdlContext where
  "example_painting =
     example_handshaken
       \<lparr>gdi := Some example_gdi, windowCount := 1,
        windows := (\<lambda>x. \<lparr>window = (if x = 0 then 1 else 0), offset_x = 0, offset_y = 0\<rparr>),
        update_complete := Some False,
        sdl_windows := [1 \<mapsto> \<lparr>win_w = 1280, win_h = 1000, win_flags = {SDL_WINDOW_SHOWN}\<rparr>],
        free_windows := []\<rparr>"

definition example_small_window :: sdlContext where
  "example_small_window =
     example_painting
       \<lparr>sdl_windows := [1 \<mapsto> \<lparr>win_w = 640, win_h = 480, win_flags = {SDL_WINDOW_SHOWN}\<rparr>]\<rparr>"

definition example_two_windows :: sdlContext where
  "example_two_windows =
     example_handshaken
       \<lparr>windowCount := 2,
        windows := (\<lambda>x. \<lparr>window = x + 1, offset_x = 0, offset_y = 0\<rparr>),
        event_queue := [SDL_USEREVENT_UPDATE, SDL_USEREVENT_UPDATE]\<rparr>"

definition example_detect_monitors :: "sdlContext \<Rightarrow> (BOOL \<times> UINT32 \<times> UINT32) \<times> sdlContext" where
  "example_detect_monitors sdl = ((True, 1920, 1080), sdl)"


section \<open>The table scans as searches\<close>

lemma for_entry_by_error_find:
  "for_entry_by_error tbl x err = find (\<lambda>cur. error cur = err) (drop x tbl)"
proof (induction tbl x err rule: for_entry_by_error.induct)
  case (1 tbl x err)
  show ?case
  proof (cases "x < length tbl")
    case True
    then have d: "drop x tbl = tbl ! x # drop (x + 1) tbl"
      by (simp add: Cons_nth_drop_Suc)
    show ?thesis
      using True "1.IH" [OF True refl]
      by (subst for_entry_by_error.simps) (simp add: d Let_def)
  next
    case False
    then show ?thesis
      by (subst for_entry_by_error.simps) simp
  qed
qed

lemma for_entry_by_code_find:
  "for_entry_by_code tbl x c = find (\<lambda>cur. code cur = c) (drop x tbl)"
proof (induction tbl x c rule: for_entry_by_code.induct)
  case (1 tbl x c)
  show ?case
  proof (cases "x < length tbl")
    case True
    then have d: "drop x tbl = tbl ! x # drop (x + 1) tbl"
      by (simp add: Cons_nth_drop_Suc)
    show ?thesis
      using True "1.IH" [OF True refl]
      by (subst for_entry_by_code.simps) (simp add: d Let_def)
  next
    case False
    then show ?thesis
      by (subst for_entry_by_code.simps) simp
  qed
qed

lemma sdl_map_entry_by_error_find:
  "sdl_map_entry_by_error h err = find (\<lambda>cur. error cur = err) (sdl_exit_code_map h)"
  by (simp add: sdl_map_entry_by_error_def for_entry_by_error_find)

lemma sdl_map_entry_by_code_find:
  "sdl_map_entry_by_code h c = find (\<lambda>cur. code cur = c) (sdl_exit_code_map h)"
  by (simp add: sdl_map_entry_by_code_def for_entry_by_code_find)

lemma find_first_match:
  assumes "i < length xs" and "P (xs ! i)" and "\<forall>y \<in> set (take i xs). \<not> P y"
  shows "find P xs = Some (xs ! i)"
  using assms
proof (induction xs arbitrary: i)
  case Nil
  then show ?case by simp
next
  case (Cons a xs)
  show ?case
  proof (cases i)
    case 0
    with Cons.prems show ?thesis by simp
  next
    case (Suc k)
    with Cons.prems have "k < length xs" "P (xs ! k)" "\<forall>y \<in> set (take k xs). \<not> P y" "\<not> P a"
      by simp_all
    with Cons.IH [of k] Suc show ?thesis by simp
  qed
qed

lemma find_no_match: "(\<forall>y \<in> set xs. \<not> P y) \<Longrightarrow> find P xs = None"
  by (simp add: find_None_iff)


section \<open>Properties of the exit-code table\<close>

declare exit_code_spelling.simps [simp del]

lemmas lookup_eval = sdl_map_to_code_tag_def sdl_map_error_to_exit_code_def
  sdl_map_entry_by_error_find sdl_map_entry_by_code_find sdl_exit_code_map_def ENTRY_def

lemma freerdp_error_names_UNIV: "set freerdp_error_names = UNIV"
proof -
  have "x \<in> set freerdp_error_names" for x
    by (cases x) (simp_all add: freerdp_error_names_def)
  then show ?thesis by auto
qed

lemma inj_freerdp_error_h: "inj freerdp_error_h"
proof -
  have "distinct (map freerdp_error_h freerdp_error_names)"
    by (simp add: freerdp_error_names_def)
  then have "inj_on freerdp_error_h (set freerdp_error_names)"
    by (simp add: distinct_map)
  then show ?thesis by (simp add: freerdp_error_names_UNIV)
qed

text \<open>
  Claim C1, as amended.  Let the header give pairwise distinct values to the error
  names.  For every entry \<open>(e, c, tag)\<close> of \<open>sdl_exit_code_map\<close>, the tag looked up
  for \<open>c\<close> is \<open>tag\<close>; the exit code looked up for \<open>e\<close> is \<open>c\<close> when \<open>e\<close> is not
  \<open>FREERDP_ERROR_NONE\<close>; and for \<open>FREERDP_ERROR_NONE\<close>, which stands in 28 entries,
  the exit code looked up is that of the first of them, \<open>SDL_EXIT_DISCONNECT\<close>.
\<close>

theorem exit_code_map_entries:
  assumes "inj h" and "\<lparr>error = e, code = c, code_tag = tag\<rparr> \<in> set (sdl_exit_code_map h)"
  shows "sdl_map_to_code_tag h c = Some tag
       \<and> (e \<noteq> h FREERDP_ERROR_NONE \<longrightarrow> sdl_map_error_to_exit_code h e = c)
       \<and> (e = h FREERDP_ERROR_NONE \<longrightarrow>
            sdl_map_error_to_exit_code h e = exit_code_value SDL_EXIT_DISCONNECT)"
proof -
  note ev = lookup_eval inj_eq [OF assms(1)]
  from assms(2) show ?thesis
    unfolding sdl_exit_code_map_def ENTRY_def set_simps insert_iff empty_iff
    by (elim disjE; simp add: ev)
qed

theorem exit_code_map_entries_witness:
  "\<lparr>error = 0x00020009, code = 132, code_tag = ''SDL_EXIT_AUTH_FAILURE''\<rparr>
       \<in> set (sdl_exit_code_map freerdp_error_h)
   \<and> sdl_map_to_code_tag freerdp_error_h 132 = Some ''SDL_EXIT_AUTH_FAILURE''
   \<and> sdl_map_error_to_exit_code freerdp_error_h 0x00020009 = 132"
proof -
  have m: "\<lparr>error = 0x00020009, code = 132, code_tag = ''SDL_EXIT_AUTH_FAILURE''\<rparr>
       \<in> set (sdl_exit_code_map freerdp_error_h)"
    by (simp add: sdl_exit_code_map_def ENTRY_def exit_code_spelling.simps)
  show ?thesis
    using exit_code_map_entries [OF inj_freerdp_error_h m] m by simp
qed

text \<open>
  Claim C1 as stated fails: \<open>(FREERDP_ERROR_NONE, SDL_EXIT_LOGOFF, "SDL_EXIT_LOGOFF")\<close>
  is an entry of the table, and the exit code looked up for \<open>FREERDP_ERROR_NONE\<close> is
  1 (\<open>SDL_EXIT_DISCONNECT\<close>), not 2 (\<open>SDL_EXIT_LOGOFF\<close>).
\<close>

theorem exit_code_map_entries_counterexample:
  "\<lparr>error = freerdp_error_h FREERDP_ERROR_NONE, code = exit_code_value SDL_EXIT_LOGOFF,
     code_tag = exit_code_spelling SDL_EXIT_LOGOFF\<rparr> \<in> set (sdl_exit_code_map freerdp_error_h)
   \<and> sdl_map_error_to_exit_code freerdp_error_h (freerdp_error_h FREERDP_ERROR_NONE) = 1
   \<and> exit_code_value SDL_EXIT_LOGOFF = 2"
  by (simp add: lookup_eval)

text \<open>
  Claim C3.  The exit-code lookup is a total function of the protocol error.  If the
  entry at index \<open>i\<close> has the error \<open>e\<close> and no entry before it has, the lookup for
  \<open>e\<close> returns that entry's exit code; if no entry of the table has the error \<open>e\<close>,
  it returns \<open>SDL_EXIT_CONN_FAILED\<close>.
\<close>

theorem sdl_map_error_to_exit_code_total:
  "(i < length (sdl_exit_code_map h)
      \<and> error (sdl_exit_code_map h ! i) = e
      \<and> (\<forall>cur \<in> set (take i (sdl_exit_code_map h)). error cur \<noteq> e)
    \<longrightarrow> sdl_map_error_to_exit_code h e = code (sdl_exit_code_map h ! i))
   \<and> ((\<forall>cur \<in> set (sdl_exit_code_map h). error cur \<noteq> e)
    \<longrightarrow> sdl_map_error_to_exit_code h e = exit_code_value SDL_EXIT_CONN_FAILED)"
proof (intro conjI impI)
  assume "i < length (sdl_exit_code_map h)
      \<and> error (sdl_exit_code_map h ! i) = e
      \<and> (\<forall>cur \<in> set (take i (sdl_exit_code_map h)). error cur \<noteq> e)"
  then have "find (\<lambda>cur. error cur = e) (sdl_exit_code_map h) = Some (sdl_exit_code_map h ! i)"
    by (intro find_first_match) auto
  then show "sdl_map_error_to_exit_code h e = code (sdl_exit_code_map h ! i)"
    by (simp add: sdl_map_error_to_exit_code_def sdl_map_entry_by_error_find)
next
  assume "\<forall>cur \<in> set (sdl_exit_code_map h). error cur \<noteq> e"
  then have "find (\<lambda>cur. error cur = e) (sdl_exit_code_map h) = None"
    by (intro find_no_match) auto
  then show "sdl_map_error_to_exit_code h e = exit_code_value SDL_EXIT_CONN_FAILED"
    by (simp add: sdl_map_error_to_exit_code_def sdl_map_entry_by_error_find)
qed

theorem sdl_map_error_to_exit_code_total_witness:
  "sdl_map_error_to_exit_code freerdp_error_h 0xFFFFFFFF = 1
   \<and> sdl_map_error_to_exit_code freerdp_error_h 0x00020009 = 132
   \<and> sdl_map_error_to_exit_code freerdp_error_h 0x12345678 = 131"
proof -
  have a: "(1::nat) < length (sdl_exit_code_map freerdp_error_h)
      \<and> error (sdl_exit_code_map freerdp_error_h ! 1) = 0xFFFFFFFF
      \<and> (\<forall>cur \<in> set (take 1 (sdl_exit_code_map freerdp_error_h)). error cur \<noteq> 0xFFFFFFFF)"
    by (simp add: sdl_exit_code_map_def ENTRY_def)
  have b: "(30::nat) < length (sdl_exit_code_map freerdp_error_h)
      \<and> error (sdl_exit_code_map freerdp_error_h ! 30) = 0x00020009
      \<and> (\<forall>cur \<in> set (take 30 (sdl_exit_code_map freerdp_error_h)). error cur \<noteq> 0x00020009)"
    by (simp add: sdl_exit_code_map_def ENTRY_def)
  have c: "\<forall>cur \<in> set (sdl_exit_code_map freerdp_error_h). error cur \<noteq> 0x12345678"
    by (simp add: sdl_exit_code_map_def ENTRY_def)
  have a': "code (sdl_exit_code_map freerdp_error_h ! 1) = 1"
    and b': "code (sdl_exit_code_map freerdp_error_h ! 30) = 132"
    by (simp_all add: sdl_exit_code_map_def ENTRY_def)
  show ?thesis
    using sdl_map_error_to_exit_code_total [of 1 freerdp_error_h "0xFFFFFFFF"]
      sdl_map_error_to_exit_code_total [of 30 freerdp_error_h "0x00020009"]
      sdl_map_error_to_exit_code_total [of 0 freerdp_error_h "0x12345678"]
      a b c a' b'
    by simp
qed

section \<open>Properties of the frame gate\<close>

lemmas example_defs = example_painting_def example_handshaken_def example_constructed_def
  example_context_def example_gdi_def example_settings_def example_two_windows_def
  example_detect_monitors_def

lemma WaitForMultipleObjects_2:
  "WaitForMultipleObjects [Some a, Some b] =
     (if a then Some WAIT_OBJECT_0 else if b then Some (WAIT_OBJECT_0 + 1) else None)"
  by (simp add: WaitForMultipleObjects_def)

text \<open>
  Claim C4.  \<open>sdl_client_new\<close>, when it succeeds, leaves the event \<open>update_complete\<close>
  signalled.  In any later session in which that event is as construction left it,
  the abort event is not signalled and the framebuffer exists, \<open>sdl_begin_paint\<close>
  returns \<open>TRUE\<close>: it neither blocks in its wait nor fails.
\<close>

theorem first_begin_paint_succeeds:
  assumes "sdl_client_new a1 a2 a3 a4 sdl0 = (True, sdl1)"
    and "update_complete sdl = update_complete sdl1"
    and "abort_event sdl = Some False"
    and "gdi sdl = Some g"
  shows "update_complete sdl1 = Some True \<and> fst (sdl_begin_paint sdl) = Returned True"
proof -
  from assms(1) have g: "update_complete sdl1 = Some True"
    by (auto simp: sdl_client_new_def CreateEventA_def Let_def split: if_splits)
  with assms(2-4) have "fst (sdl_begin_paint sdl) = Returned True"
    by (simp add: sdl_begin_paint_def WaitForMultipleObjects_2 ResetEvent_def)
  with g show ?thesis by simp
qed

theorem first_begin_paint_succeeds_witness:
  "sdl_client_new True True True True example_context = (True, example_constructed)
   \<and> fst (sdl_begin_paint (example_constructed\<lparr>gdi := Some example_gdi\<rparr>)) = Returned True"
proof -
  have c: "sdl_client_new True True True True example_context = (True, example_constructed)"
    by (auto simp: sdl_client_new_def CreateEventA_def example_constructed_def example_context_def)
  have "fst (sdl_begin_paint (example_constructed\<lparr>gdi := Some example_gdi\<rparr>)) = Returned True"
    using first_begin_paint_succeeds [OF c, where sdl = "example_constructed\<lparr>gdi := Some example_gdi\<rparr>"
        and g = example_gdi]
    by (simp add: example_constructed_def example_context_def)
  with c show ?thesis by simp
qed

text \<open>
  Claim C5.  Whenever \<open>sdl_begin_paint\<close> returns \<open>TRUE\<close>, the event
  \<open>update_complete\<close> is left unsignalled and the invalid-region tracker is empty
  (\<open>invalid->null\<close> set, \<open>ninvalid\<close> zero).  Whenever its wait ends with a status
  other than \<open>WAIT_OBJECT_0\<close> (the abort event, or a failed wait), it returns
  \<open>FALSE\<close> and changes nothing.
\<close>

theorem sdl_begin_paint_effect:
  "(sdl_begin_paint sdl = (Returned True, sdl') \<longrightarrow>
      update_complete sdl' = Some False
      \<and> (\<exists>g. gdi sdl' = Some g \<and> invalid_null g \<and> ninvalid g = 0))
   \<and> (WaitForMultipleObjects [update_complete sdl, abort_event sdl] = Some status
        \<and> status \<noteq> WAIT_OBJECT_0 \<longrightarrow> sdl_begin_paint sdl = (Returned False, sdl))"
  by (auto simp: sdl_begin_paint_def ResetEvent_def Let_def
      split: option.splits if_splits prod.splits)

theorem sdl_begin_paint_effect_witness:
  "sdl_begin_paint (example_constructed\<lparr>gdi := Some example_gdi\<rparr>)
     = (Returned True,
        example_constructed\<lparr>gdi := Some (example_gdi\<lparr>invalid_null := True, ninvalid := 0\<rparr>),
                            update_complete := Some False\<rparr>)
   \<and> WaitForMultipleObjects [update_complete (example_painting\<lparr>abort_event := Some True\<rparr>),
        abort_event (example_painting\<lparr>abort_event := Some True\<rparr>)] = Some 1
   \<and> sdl_begin_paint (example_painting\<lparr>abort_event := Some True\<rparr>)
     = (Returned False, example_painting\<lparr>abort_event := Some True\<rparr>)"
proof -
  let ?A = "example_constructed\<lparr>gdi := Some example_gdi\<rparr>"
  let ?A' = "example_constructed\<lparr>gdi := Some (example_gdi\<lparr>invalid_null := True, ninvalid := 0\<rparr>),
                            update_complete := Some False\<rparr>"
  let ?B = "example_painting\<lparr>abort_event := Some True\<rparr>"
  have a: "sdl_begin_paint ?A = (Returned True, ?A')"
    by (simp add: sdl_begin_paint_def WaitForMultipleObjects_2 ResetEvent_def
        example_constructed_def example_context_def)
  have w: "WaitForMultipleObjects [update_complete ?B, abort_event ?B] = Some 1"
    by (simp add: WaitForMultipleObjects_2 WAIT_OBJECT_0_def example_painting_def
        example_handshaken_def example_constructed_def example_context_def)
  have n: "(1::DWORD) \<noteq> WAIT_OBJECT_0" by (simp add: WAIT_OBJECT_0_def)
  show ?thesis
    using sdl_begin_paint_effect [of ?A ?A' 0] sdl_begin_paint_effect [of ?B ?B 1] a w n
    by simp
qed

section \<open>Properties of the compositor\<close>

lemma for_invalid_blit_calls:
  "for_invalid_blit screen win cinv ninv i calls =
     calls @ concat (map (\<lambda>j. blit_calls screen win (cinv j)) [i..<nat (sint ninv)])"
proof (induction screen win cinv ninv i calls rule: for_invalid_blit.induct)
  case (1 screen win cinv ninv i calls)
  show ?case
  proof (cases "int i < sint ninv")
    case True
    then have "i < nat (sint ninv)" by simp
    then have u: "[i..<nat (sint ninv)] = i # [i + 1..<nat (sint ninv)]"
      by (simp add: upt_conv_Cons)
    show ?thesis
      using True "1.IH" [OF True refl refl refl]
      by (subst for_invalid_blit.simps) (simp add: u Let_def blit_calls_def)
  next
    case False
    then have "[i..<nat (sint ninv)] = []" by simp
    with False show ?thesis
      by (subst for_invalid_blit.simps) simp
  qed
qed

lemma paint_window_frame:
  assumes "paint_window g x sdl = (r, sdl')"
  shows "update_complete sdl' = update_complete sdl \<and> sdl_windows sdl' = sdl_windows sdl
       \<and> settings sdl' = settings sdl \<and> gdi sdl' = gdi sdl
       \<and> (\<forall>y. window (windows sdl' y) = window (windows sdl y))"
  using assms
  by (auto simp: paint_window_def Let_def split: option.splits if_splits prod.splits)

lemma paint_window_unscaled:
  assumes "\<not> SmartSizing (settings sdl)" and "sdl_windows sdl (window (windows sdl x)) = Some W"
  shows "paint_window g x sdl =
     (Returned (),
      sdl\<lparr>windows := (windows sdl)(x := centred g W (windows sdl x)),
          sdl_calls := sdl_calls sdl @ unscaled_calls g (centred g W (windows sdl x))\<rparr>)"
  using assms
  by (simp add: paint_window_def Let_def centred_def unscaled_calls_def for_invalid_blit_calls)

lemma centred_fields:
  "window (centred g W win) = window win"
  "offset_x (centred g W win) = (if width g <s win_w W then int_div (win_w W - width g) 2 else 0)"
  "offset_y (centred g W win) = (if height g <s win_h W then int_div (win_h W - height g) 2 else 0)"
  by (simp_all add: centred_def Let_def)

lemma paint_window_Returned:
  assumes "sdl_windows sdl (window (windows sdl x)) = Some W"
  shows "\<exists>sdl'. paint_window g x sdl = (Returned (), sdl')"
  using assms by (simp add: paint_window_def Let_def)

lemma for_windows_paint_frame:
  "for_windows_paint g n x sdl = (r, sdl') \<Longrightarrow>
     update_complete sdl' = update_complete sdl \<and> sdl_windows sdl' = sdl_windows sdl
       \<and> settings sdl' = settings sdl \<and> gdi sdl' = gdi sdl
       \<and> (\<forall>y. window (windows sdl' y) = window (windows sdl y))"
proof (induction g n x sdl rule: for_windows_paint.induct)
  case (1 g n x sdl)
  show ?case
  proof (cases "x < n")
    case False
    with "1.prems" show ?thesis
      by (subst (asm) for_windows_paint.simps) simp
  next
    case True
    obtain r1 sdl1 where p: "paint_window g x sdl = (r1, sdl1)"
      by (cases "paint_window g x sdl")
    note f = paint_window_frame [OF p]
    show ?thesis
    proof (cases r1)
      case (Returned u)
      with "1.prems" True p have "for_windows_paint g n (x + 1) sdl1 = (r, sdl')"
        by (subst (asm) for_windows_paint.simps) simp
      from "1.IH" [OF True p [symmetric] _ this] Returned f show ?thesis by simp
    qed (use "1.prems" True p f in \<open>subst (asm) for_windows_paint.simps, simp\<close>)+
  qed
qed

lemma for_windows_paint_Returned:
  "(\<forall>y. x \<le> y \<and> y < n \<longrightarrow> sdl_windows sdl (window (windows sdl y)) \<noteq> None) \<Longrightarrow>
     \<exists>sdl'. for_windows_paint g n x sdl = (Returned (), sdl')"
proof (induction g n x sdl rule: for_windows_paint.induct)
  case (1 g n x sdl)
  show ?case
  proof (cases "x < n")
    case False
    then show ?thesis by (subst for_windows_paint.simps) simp
  next
    case True
    with "1.prems" obtain W where W: "sdl_windows sdl (window (windows sdl x)) = Some W"
      by auto
    from paint_window_Returned [OF W] obtain sdl1 where p: "paint_window g x sdl = (Returned (), sdl1)"
      by blast
    note f = paint_window_frame [OF p]
    have "\<forall>y. x + 1 \<le> y \<and> y < n \<longrightarrow> sdl_windows sdl1 (window (windows sdl1 y)) \<noteq> None"
      using "1.prems" f by simp
    from "1.IH" [OF True p [symmetric] _ this] obtain sdl' where
      "for_windows_paint g n (x + 1) sdl1 = (Returned (), sdl')" by auto
    with True p show ?thesis by (subst for_windows_paint.simps) simp
  qed
qed

lemma sint_sub_no_overflow:
  fixes a b :: "32 word"
  assumes "0 \<le> sint b" and "sint b < sint a"
  shows "sint (a - b) = sint a - sint b"
proof -
  have "sint a < 2 ^ 31" using sint_lt [of a] by simp
  with assms have r: "- (2 ^ 31) \<le> sint a - sint b" "sint a - sint b < 2 ^ 31" by simp_all
  have "sint (a - b) = signed_take_bit 31 (sint a - sint b)"
    by (simp add: sint_word_ariths)
  also have "\<dots> = sint a - sint b"
    using r by (simp add: signed_take_bit_int_eq_self)
  finally show ?thesis .
qed

lemma int_div_2:
  fixes a b :: "32 word"
  assumes "0 \<le> sint b" and "sint b < sint a"
  shows "sint (int_div (a - b) 2) = (sint a - sint b) div 2"
proof -
  let ?d = "sint a - sint b"
  have d: "sint (a - b) = ?d" using assms by (rule sint_sub_no_overflow)
  have "sint a < 2 ^ 31" using sint_lt [of a] by simp
  with assms have r: "0 < ?d" "?d < 2 ^ 31" by simp_all
  have q: "?d sdiv 2 = ?d div 2"
    using r by (simp add: signed_divide_int_def sgn_if)
  have "- (2 ^ 31) \<le> ?d div 2" "?d div 2 < 2 ^ 31" using r by simp_all
  then have "sint (word_of_int (?d div 2) :: 32 word) = ?d div 2"
    by (simp add: sint_sbintrunc' signed_take_bit_int_eq_self)
  then show ?thesis by (simp add: int_div_def d q)
qed

lemma for_windows_paint_unscaled:
  assumes "\<not> SmartSizing (settings sdl)"
    and "\<forall>y. x \<le> y \<and> y < n \<longrightarrow> sdl_windows sdl (window (windows sdl y)) \<noteq> None"
  shows "\<exists>sdl'. for_windows_paint g n x sdl = (Returned (), sdl')
     \<and> (\<forall>y. windows sdl' y =
           (if x \<le> y \<and> y < n
            then centred g (the (sdl_windows sdl (window (windows sdl y)))) (windows sdl y)
            else windows sdl y))
     \<and> sdl_calls sdl' = sdl_calls sdl @
           concat (map (\<lambda>y. unscaled_calls g
                     (centred g (the (sdl_windows sdl (window (windows sdl y)))) (windows sdl y)))
                   [x..<n])"
  using assms
proof (induction g n x sdl rule: for_windows_paint.induct)
  case (1 g n x sdl)
  show ?case
  proof (cases "x < n")
    case False
    then show ?thesis by (subst for_windows_paint.simps) auto
  next
    case True
    with "1.prems" obtain W where W: "sdl_windows sdl (window (windows sdl x)) = Some W"
      by auto
    define sdl1 where "sdl1 = sdl\<lparr>windows := (windows sdl)(x := centred g W (windows sdl x)),
          sdl_calls := sdl_calls sdl @ unscaled_calls g (centred g W (windows sdl x))\<rparr>"
    have p: "paint_window g x sdl = (Returned (), sdl1)"
      unfolding sdl1_def by (rule paint_window_unscaled [OF "1.prems"(1) W])
    have s1: "\<not> SmartSizing (settings sdl1)" using "1.prems"(1) by (simp add: sdl1_def)
    have same: "windows sdl1 y = windows sdl y" if "x + 1 \<le> y" for y
      using that by (simp add: sdl1_def)
    have w1: "\<forall>y. x + 1 \<le> y \<and> y < n \<longrightarrow> sdl_windows sdl1 (window (windows sdl1 y)) \<noteq> None"
      using "1.prems"(2) by (simp add: sdl1_def)
    from "1.IH" [OF True p [symmetric] _ s1 w1] obtain sdl' where
      r: "for_windows_paint g n (x + 1) sdl1 = (Returned (), sdl')"
      and ws: "\<forall>y. windows sdl' y =
           (if x + 1 \<le> y \<and> y < n
            then centred g (the (sdl_windows sdl1 (window (windows sdl1 y)))) (windows sdl1 y)
            else windows sdl1 y)"
      and cs: "sdl_calls sdl' = sdl_calls sdl1 @
           concat (map (\<lambda>y. unscaled_calls g
                     (centred g (the (sdl_windows sdl1 (window (windows sdl1 y)))) (windows sdl1 y)))
                   [x + 1..<n])"
      by auto
    have run: "for_windows_paint g n x sdl = (Returned (), sdl')"
      using True p r by (subst for_windows_paint.simps) simp
    have ws': "windows sdl' y =
           (if x \<le> y \<and> y < n
            then centred g (the (sdl_windows sdl (window (windows sdl y)))) (windows sdl y)
            else windows sdl y)" for y
    proof (cases "y = x")
      case True
      with ws W \<open>x < n\<close> show ?thesis by (simp add: sdl1_def)
    next
      case False
      with ws show ?thesis by (auto simp: sdl1_def)
    qed
    have m: "map (\<lambda>y. unscaled_calls g
                     (centred g (the (sdl_windows sdl1 (window (windows sdl1 y)))) (windows sdl1 y)))
                   [x + 1..<n]
           = map (\<lambda>y. unscaled_calls g
                     (centred g (the (sdl_windows sdl (window (windows sdl y)))) (windows sdl y)))
                   [x + 1..<n]"
      by (rule map_cong) (simp_all add: sdl1_def)
    have u: "[x..<n] = x # [x + 1..<n]" using True by (simp add: upt_conv_Cons)
    have cs': "sdl_calls sdl' = sdl_calls sdl @
           concat (map (\<lambda>y. unscaled_calls g
                     (centred g (the (sdl_windows sdl (window (windows sdl y)))) (windows sdl y)))
                   [x..<n])"
      unfolding cs m u using W by (simp add: sdl1_def)
    from run ws' cs' show ?thesis by blast
  qed
qed

lemma sdl_end_paint_process_skip:
  assumes "gdi sdl = Some g" and "suppressOutput g \<or> invalid_null g \<or> sint (ninvalid g) < 1"
    and "update_complete sdl \<noteq> None"
  shows "sdl_end_paint_process sdl = (Returned True, sdl\<lparr>update_complete := Some True\<rparr>)"
  using assms
  by (auto simp: sdl_end_paint_process_def SetEvent_def word_sless_alt)

lemma sdl_end_paint_process_gate:
  assumes "update_complete sdl \<noteq> None" and "sdl_end_paint_process sdl = (Returned ok, sdl')"
  shows "ok \<and> update_complete sdl' = Some True"
proof -
  from assms(2) obtain g where g: "gdi sdl = Some g"
    by (auto simp: sdl_end_paint_process_def split: option.splits)
  define body where "body =
    (if suppressOutput g \<or> invalid_null g then (Returned (), sdl)
     else if ninvalid g <s 1 then (Returned (), sdl)
     else for_windows_paint g (windowCount sdl) 0 sdl)"
  obtain r sdl1 where b: "body = (r, sdl1)" by (cases body)
  have "update_complete sdl1 = update_complete sdl"
    using b for_windows_paint_frame [of g "windowCount sdl" 0 sdl r sdl1]
    by (auto simp: body_def split: if_splits)
  with assms(1) obtain s where s: "update_complete sdl1 = Some s" by auto
  from assms(2) g b have "r = Returned ()"
    by (cases r) (simp_all add: sdl_end_paint_process_def body_def [symmetric])
  with assms(2) g b s show ?thesis
    by (auto simp: sdl_end_paint_process_def body_def [symmetric] SetEvent_def)
qed

lemma sdl_end_paint_process_finishes:
  assumes "gdi sdl \<noteq> None"
    and "\<forall>y<windowCount sdl. sdl_windows sdl (window (windows sdl y)) \<noteq> None"
  shows "\<exists>ok sdl'. sdl_end_paint_process sdl = (Returned ok, sdl')"
proof -
  from assms(1) obtain g where g: "gdi sdl = Some g" by auto
  from assms(2) for_windows_paint_Returned [of 0 "windowCount sdl" sdl g]
  obtain sdl1 where "for_windows_paint g (windowCount sdl) 0 sdl = (Returned (), sdl1)"
    by auto
  with g show ?thesis
    by (auto simp: sdl_end_paint_process_def split: prod.splits)
qed

text \<open>
  Claim C6.  With \<open>update_complete\<close> a valid handle: every pass of
  \<open>sdl_end_paint_process\<close> that finishes returns \<open>TRUE\<close> and leaves
  \<open>update_complete\<close> signalled; when output is suppressed, or the invalid region is
  null, or there is no invalid rectangle, the pass does nothing but signal the event
  (no toolkit call, no other change of the session); and a pass finishes whenever the
  framebuffer exists and every window of the session is a window of the toolkit.
\<close>

theorem end_paint_process_signals_gate:
  "(update_complete sdl \<noteq> None \<and> sdl_end_paint_process sdl = (Returned ok, sdl')
      \<longrightarrow> ok \<and> update_complete sdl' = Some True)
   \<and> (update_complete sdl \<noteq> None \<and> gdi sdl = Some g
        \<and> (suppressOutput g \<or> invalid_null g \<or> sint (ninvalid g) < 1)
      \<longrightarrow> sdl_end_paint_process sdl = (Returned True, sdl\<lparr>update_complete := Some True\<rparr>))
   \<and> (gdi sdl \<noteq> None
        \<and> (\<forall>y<windowCount sdl. sdl_windows sdl (window (windows sdl y)) \<noteq> None)
      \<longrightarrow> (\<exists>r s. sdl_end_paint_process sdl = (Returned r, s)))"
  using sdl_end_paint_process_gate [of sdl ok sdl'] sdl_end_paint_process_skip [of sdl g]
    sdl_end_paint_process_finishes [of sdl]
  by blast

theorem end_paint_process_signals_gate_witness:
  "sdl_end_paint_process (example_painting\<lparr>gdi := Some (example_gdi\<lparr>suppressOutput := True\<rparr>)\<rparr>)
     = (Returned True,
        example_painting\<lparr>gdi := Some (example_gdi\<lparr>suppressOutput := True\<rparr>),
                         update_complete := Some True\<rparr>)
   \<and> fst (sdl_end_paint_process example_painting) = Returned True
   \<and> update_complete (snd (sdl_end_paint_process example_painting)) = Some True
   \<and> update_complete example_painting = Some False"
proof -
  let ?S = "example_painting\<lparr>gdi := Some (example_gdi\<lparr>suppressOutput := True\<rparr>)\<rparr>"
  have h1: "update_complete ?S \<noteq> None" "gdi ?S = Some (example_gdi\<lparr>suppressOutput := True\<rparr>)"
    "suppressOutput (example_gdi\<lparr>suppressOutput := True\<rparr>)"
    by (simp_all add: example_defs)
  have h2: "update_complete example_painting \<noteq> None" "gdi example_painting \<noteq> None"
    "\<forall>y<windowCount example_painting.
        sdl_windows example_painting (window (windows example_painting y)) \<noteq> None"
    by (simp_all add: example_defs)
  from end_paint_process_signals_gate [of ?S True ?S "example_gdi\<lparr>suppressOutput := True\<rparr>"] h1
  have a: "sdl_end_paint_process ?S = (Returned True, ?S\<lparr>update_complete := Some True\<rparr>)"
    by blast
  from end_paint_process_signals_gate [of example_painting] h2
  obtain r s where b: "sdl_end_paint_process example_painting = (Returned r, s)"
    by blast
  from end_paint_process_signals_gate [of example_painting r s] h2 b
  have "r \<and> update_complete s = Some True" by blast
  with a b show ?thesis by (simp add: example_defs)
qed

text \<open>
  Claim C7.  On the unscaled path (no \<open>SmartSizing\<close>, output not suppressed, at least
  one invalid rectangle), with a framebuffer of non-negative width and height and
  windows of the toolkit, the pass finishes and, for every window \<open>x\<close> of the
  session: its offset on each axis is \<open>(windowSize - framebufferSize) div 2\<close> when
  the window is larger than the framebuffer on that axis and \<open>0\<close> otherwise; and
  the toolkit calls of the pass are, window by window and rectangle by rectangle, an
  unscaled \<open>SDL_BlitSurface\<close> from the invalid rectangle to the same rectangle moved
  by the window's offsets, then one \<open>SDL_UpdateWindowSurface\<close> per window.
\<close>

theorem unscaled_pass_centres_and_copies:
  assumes "gdi sdl = Some g" and "\<not> SmartSizing (settings sdl)"
    and "\<not> suppressOutput g" and "\<not> invalid_null g" and "1 \<le> sint (ninvalid g)"
    and "0 \<le> sint (width g)" and "0 \<le> sint (height g)"
    and "\<forall>y<windowCount sdl. sdl_windows sdl (window (windows sdl y)) \<noteq> None"
    and "x < windowCount sdl" and "sdl_windows sdl (window (windows sdl x)) = Some W"
  shows "\<exists>ok sdl'. sdl_end_paint_process sdl = (Returned ok, sdl')
     \<and> window (windows sdl' x) = window (windows sdl x)
     \<and> sint (offset_x (windows sdl' x)) =
         (if sint (width g) < sint (win_w W) then (sint (win_w W) - sint (width g)) div 2 else 0)
     \<and> sint (offset_y (windows sdl' x)) =
         (if sint (height g) < sint (win_h W) then (sint (win_h W) - sint (height g)) div 2 else 0)
     \<and> sdl_calls sdl' = sdl_calls sdl @
         concat (map (\<lambda>y.
           concat (map (\<lambda>i.
             [SDL_SetClipRect_primary (srcRect_of (cinvalid g i)),
              SDL_BlitSurface (window (windows sdl y)) (srcRect_of (cinvalid g i))
                ((srcRect_of (cinvalid g i))
                   \<lparr>rect_x := offset_x (windows sdl' y) + rect_x (srcRect_of (cinvalid g i)),
                    rect_y := offset_y (windows sdl' y) + rect_y (srcRect_of (cinvalid g i))\<rparr>)])
             [0..<nat (sint (ninvalid g))])
           @ [SDL_UpdateWindowSurface (window (windows sdl y))])
         [0..<windowCount sdl])"
proof -
  let ?n = "windowCount sdl"
  let ?c = "\<lambda>y. centred g (the (sdl_windows sdl (window (windows sdl y)))) (windows sdl y)"
  from assms(8) have v: "\<forall>y. 0 \<le> y \<and> y < ?n \<longrightarrow> sdl_windows sdl (window (windows sdl y)) \<noteq> None"
    by simp
  from for_windows_paint_unscaled [OF assms(2) v, of g] obtain sdl1 where
    run: "for_windows_paint g ?n 0 sdl = (Returned (), sdl1)"
    and ws: "\<And>y. windows sdl1 y = (if y < ?n then ?c y else windows sdl y)"
    and cs: "sdl_calls sdl1 = sdl_calls sdl @ concat (map (\<lambda>y. unscaled_calls g (?c y)) [0..<?n])"
    by auto
  obtain ok hEvent where se: "SetEvent (update_complete sdl1) = (ok, hEvent)"
    by (cases "SetEvent (update_complete sdl1)")
  define sdl' where "sdl' = sdl1\<lparr>update_complete := hEvent\<rparr>"
  have n1: "\<not> ninvalid g <s 1" using assms(5) by (simp add: word_sless_alt)
  have res: "sdl_end_paint_process sdl = (Returned ok, sdl')"
    using assms(1,3,4) n1 run se by (simp add: sdl_end_paint_process_def sdl'_def)
  have wx: "windows sdl' x = centred g W (windows sdl x)"
    using ws [of x] assms(9,10) by (simp add: sdl'_def)
  have ox: "sint (offset_x (windows sdl' x)) =
         (if sint (width g) < sint (win_w W) then (sint (win_w W) - sint (width g)) div 2 else 0)"
    using assms(6) by (simp add: wx centred_fields word_sless_alt int_div_2)
  have oy: "sint (offset_y (windows sdl' x)) =
         (if sint (height g) < sint (win_h W) then (sint (win_h W) - sint (height g)) div 2 else 0)"
    using assms(7) by (simp add: wx centred_fields word_sless_alt int_div_2)
  have m: "map (\<lambda>y. unscaled_calls g (?c y)) [0..<?n] =
      map (\<lambda>y.
           concat (map (\<lambda>i.
             [SDL_SetClipRect_primary (srcRect_of (cinvalid g i)),
              SDL_BlitSurface (window (windows sdl y)) (srcRect_of (cinvalid g i))
                ((srcRect_of (cinvalid g i))
                   \<lparr>rect_x := offset_x (windows sdl' y) + rect_x (srcRect_of (cinvalid g i)),
                    rect_y := offset_y (windows sdl' y) + rect_y (srcRect_of (cinvalid g i))\<rparr>)])
             [0..<nat (sint (ninvalid g))])
           @ [SDL_UpdateWindowSurface (window (windows sdl y))])
         [0..<?n]"
  proof (rule map_cong [OF refl])
    fix y assume "y \<in> set [0..<?n]"
    then have "windows sdl' y = ?c y" using ws [of y] by (simp add: sdl'_def)
    then show "unscaled_calls g (?c y) =
           concat (map (\<lambda>i.
             [SDL_SetClipRect_primary (srcRect_of (cinvalid g i)),
              SDL_BlitSurface (window (windows sdl y)) (srcRect_of (cinvalid g i))
                ((srcRect_of (cinvalid g i))
                   \<lparr>rect_x := offset_x (windows sdl' y) + rect_x (srcRect_of (cinvalid g i)),
                    rect_y := offset_y (windows sdl' y) + rect_y (srcRect_of (cinvalid g i))\<rparr>)])
             [0..<nat (sint (ninvalid g))])
           @ [SDL_UpdateWindowSurface (window (windows sdl y))]"
      by (simp add: unscaled_calls_def blit_calls_def centred_fields srcRect_of_def)
  qed
  have cs': "sdl_calls sdl' = sdl_calls sdl @ concat (map (\<lambda>y. unscaled_calls g (?c y)) [0..<?n])"
    using cs by (simp add: sdl'_def)
  show ?thesis
    using res wx ox oy cs' unfolding m by (intro exI conjI) (simp_all add: centred_fields)
qed

theorem unscaled_pass_centres_and_copies_witness:
  "fst (sdl_end_paint_process example_painting) = Returned True
   \<and> sint (offset_x (windows (snd (sdl_end_paint_process example_painting)) 0)) = 128
   \<and> sint (offset_y (windows (snd (sdl_end_paint_process example_painting)) 0)) = 116
   \<and> sdl_calls (snd (sdl_end_paint_process example_painting)) =
       [SDL_SetClipRect_primary \<lparr>rect_x = 0, rect_y = 0, rect_w = 64, rect_h = 64\<rparr>,
        SDL_BlitSurface 1 \<lparr>rect_x = 0, rect_y = 0, rect_w = 64, rect_h = 64\<rparr>
          \<lparr>rect_x = 128, rect_y = 116, rect_w = 64, rect_h = 64\<rparr>,
        SDL_SetClipRect_primary \<lparr>rect_x = 100, rect_y = 200, rect_w = 32, rect_h = 16\<rparr>,
        SDL_BlitSurface 1 \<lparr>rect_x = 100, rect_y = 200, rect_w = 32, rect_h = 16\<rparr>
          \<lparr>rect_x = 228, rect_y = 316, rect_w = 32, rect_h = 16\<rparr>,
        SDL_UpdateWindowSurface 1]"
proof -
  let ?W = "\<lparr>win_w = 1280, win_h = 1000, win_flags = {SDL_WINDOW_SHOWN}\<rparr>"
  have h: "gdi example_painting = Some example_gdi" "\<not> SmartSizing (settings example_painting)"
    "\<not> suppressOutput example_gdi" "\<not> invalid_null example_gdi" "1 \<le> sint (ninvalid example_gdi)"
    "0 \<le> sint (width example_gdi)" "0 \<le> sint (height example_gdi)"
    "\<forall>y<windowCount example_painting.
        sdl_windows example_painting (window (windows example_painting y)) \<noteq> None"
    "0 < windowCount example_painting"
    "sdl_windows example_painting (window (windows example_painting 0)) = Some ?W"
    by (simp_all add: example_defs)
  from unscaled_pass_centres_and_copies [OF h]
  obtain ok sdl' where r: "sdl_end_paint_process example_painting = (Returned ok, sdl')"
    and ox: "sint (offset_x (windows sdl' 0)) =
         (if sint (width example_gdi) < sint (win_w ?W)
          then (sint (win_w ?W) - sint (width example_gdi)) div 2 else 0)"
    and oy: "sint (offset_y (windows sdl' 0)) =
         (if sint (height example_gdi) < sint (win_h ?W)
          then (sint (win_h ?W) - sint (height example_gdi)) div 2 else 0)"
    and cs: "sdl_calls sdl' = sdl_calls example_painting @
         concat (map (\<lambda>y.
           concat (map (\<lambda>i.
             [SDL_SetClipRect_primary (srcRect_of (cinvalid example_gdi i)),
              SDL_BlitSurface (window (windows example_painting y)) (srcRect_of (cinvalid example_gdi i))
                ((srcRect_of (cinvalid example_gdi i))
                   \<lparr>rect_x := offset_x (windows sdl' y) + rect_x (srcRect_of (cinvalid example_gdi i)),
                    rect_y := offset_y (windows sdl' y) + rect_y (srcRect_of (cinvalid example_gdi i))\<rparr>)])
             [0..<nat (sint (ninvalid example_gdi))])
           @ [SDL_UpdateWindowSurface (window (windows example_painting y))])
         [0..<windowCount example_painting])"
    by blast
  have ok: "ok"
    using sdl_end_paint_process_gate [of example_painting ok sdl'] r
    by (simp add: example_defs)
  have ox': "sint (offset_x (windows sdl' 0)) = 128" using ox by (simp add: example_defs)
  have oy': "sint (offset_y (windows sdl' 0)) = 116" using oy by (simp add: example_defs)
  have o: "offset_x (windows sdl' 0) = 128" "offset_y (windows sdl' 0) = 116"
  proof -
    have "sint (offset_x (windows sdl' 0)) = sint (128 :: INT32)" using ox' by simp
    then show "offset_x (windows sdl' 0) = 128" by (rule signed_word_eqI)
    have "sint (offset_y (windows sdl' 0)) = sint (116 :: INT32)" using oy' by simp
    then show "offset_y (windows sdl' 0) = 116" by (rule signed_word_eqI)
  qed
  have n: "[0..<nat (sint (ninvalid example_gdi))] = [0, 1]"
    by (simp add: example_defs upt_rec)
  have w: "[0..<windowCount example_painting] = [0]"
    by (simp add: example_defs)
  have "sdl_calls sdl' =
       [SDL_SetClipRect_primary \<lparr>rect_x = 0, rect_y = 0, rect_w = 64, rect_h = 64\<rparr>,
        SDL_BlitSurface 1 \<lparr>rect_x = 0, rect_y = 0, rect_w = 64, rect_h = 64\<rparr>
          \<lparr>rect_x = 128, rect_y = 116, rect_w = 64, rect_h = 64\<rparr>,
        SDL_SetClipRect_primary \<lparr>rect_x = 100, rect_y = 200, rect_w = 32, rect_h = 16\<rparr>,
        SDL_BlitSurface 1 \<lparr>rect_x = 100, rect_y = 200, rect_w = 32, rect_h = 16\<rparr>
          \<lparr>rect_x = 228, rect_y = 316, rect_w = 32, rect_h = 16\<rparr>,
        SDL_UpdateWindowSurface 1]"
    unfolding cs n w by (simp add: o srcRect_of_def example_defs)
  with r ok ox' oy' show ?thesis by simp
qed

section \<open>Properties of the handshake\<close>

text \<open>
  Claim C8, as amended.  With authentication-only mode set and no password,
  \<open>sdl_pre_connect\<close> returns \<open>FALSE\<close> whatever the state of the events (so it
  waits for none), and leaves the session as it was but for what it does before the
  check: \<open>highDpi\<close> is set, the two operating system identifiers are written, and
  the two channel handlers are subscribed.  In particular \<open>initialize\<close> is not
  signalled, no command is enqueued and no window is created.
\<close>

theorem pre_connect_auth_only_without_password:
  assumes "AuthenticationOnly (settings sdl)" and "Password (settings sdl) = None"
  shows "sdl_pre_connect sdl_detect_monitors sdl =
     (Returned False,
      sdl\<lparr>highDpi := True,
          settings := (settings sdl)\<lparr>OsMajorType := OSMAJORTYPE_UNIX,
                                     OsMinorType := OSMINORTYPE_NATIVE_SDL\<rparr>,
          pubSub := pubSub sdl @ [ChannelConnected_sdl_OnChannelConnectedEventHandler,
                                  ChannelDisconnected_sdl_OnChannelDisconnectedEventHandler]\<rparr>)
     \<and> initialize (snd (sdl_pre_connect sdl_detect_monitors sdl)) = initialize sdl
     \<and> event_queue (snd (sdl_pre_connect sdl_detect_monitors sdl)) = event_queue sdl
     \<and> windowCount (snd (sdl_pre_connect sdl_detect_monitors sdl)) = windowCount sdl
     \<and> windows (snd (sdl_pre_connect sdl_detect_monitors sdl)) = windows sdl
     \<and> sdl_windows (snd (sdl_pre_connect sdl_detect_monitors sdl)) = sdl_windows sdl"
  using assms by (simp add: sdl_pre_connect_def Let_def)

theorem pre_connect_auth_only_without_password_witness:
  "sdl_pre_connect example_detect_monitors
      (example_constructed\<lparr>settings := example_settings\<lparr>AuthenticationOnly := True\<rparr>\<rparr>)
    = (Returned False,
       example_constructed
         \<lparr>settings := example_settings\<lparr>AuthenticationOnly := True, OsMajorType := OSMAJORTYPE_UNIX,
                                       OsMinorType := OSMINORTYPE_NATIVE_SDL\<rparr>,
          pubSub := [ChannelConnected_sdl_OnChannelConnectedEventHandler,
                     ChannelDisconnected_sdl_OnChannelDisconnectedEventHandler],
          highDpi := True\<rparr>)"
  using pre_connect_auth_only_without_password
    [of "example_constructed\<lparr>settings := example_settings\<lparr>AuthenticationOnly := True\<rparr>\<rparr>"
      example_detect_monitors]
  by (simp add: example_defs)

text \<open>
  Claim C8 as stated fails in its last part: the call that fails has subscribed the
  two channel handlers (which \<open>sdl_post_disconnect\<close> unsubscribes), so it leaves the
  session in another state than it found it.
\<close>

theorem pre_connect_auth_only_counterexample:
  "fst (sdl_pre_connect example_detect_monitors
      (example_constructed\<lparr>settings := example_settings\<lparr>AuthenticationOnly := True\<rparr>\<rparr>))
     = Returned False
   \<and> pubSub (example_constructed\<lparr>settings := example_settings\<lparr>AuthenticationOnly := True\<rparr>\<rparr>) = []
   \<and> pubSub (snd (sdl_pre_connect example_detect_monitors
      (example_constructed\<lparr>settings := example_settings\<lparr>AuthenticationOnly := True\<rparr>\<rparr>)))
     = [ChannelConnected_sdl_OnChannelConnectedEventHandler,
        ChannelDisconnected_sdl_OnChannelDisconnectedEventHandler]
   \<and> snd (sdl_pre_connect example_detect_monitors
      (example_constructed\<lparr>settings := example_settings\<lparr>AuthenticationOnly := True\<rparr>\<rparr>))
     \<noteq> example_constructed\<lparr>settings := example_settings\<lparr>AuthenticationOnly := True\<rparr>\<rparr>"
proof -
  let ?S = "example_constructed\<lparr>settings := example_settings\<lparr>AuthenticationOnly := True\<rparr>\<rparr>"
  have r: "sdl_pre_connect example_detect_monitors ?S =
     (Returned False,
      ?S\<lparr>highDpi := True,
          settings := (settings ?S)\<lparr>OsMajorType := OSMAJORTYPE_UNIX,
                                    OsMinorType := OSMINORTYPE_NATIVE_SDL\<rparr>,
          pubSub := pubSub ?S @ [ChannelConnected_sdl_OnChannelConnectedEventHandler,
                                 ChannelDisconnected_sdl_OnChannelDisconnectedEventHandler]\<rparr>)"
    by (simp add: sdl_pre_connect_def Let_def example_defs)
  have p: "pubSub ?S = []" by (simp add: example_defs)
  have "pubSub (snd (sdl_pre_connect example_detect_monitors ?S)) \<noteq> pubSub ?S"
    unfolding r p by simp
  then have "snd (sdl_pre_connect example_detect_monitors ?S) \<noteq> ?S" by auto
  then show ?thesis unfolding r using p by simp
qed

lemma sdl_wait_create_windows_initialized:
  assumes "initialized sdl = Some True" and "abort_event sdl \<noteq> None"
    and "windows_created sdl \<noteq> None" and "length (event_queue sdl) < queue_capacity sdl"
  shows "sdl_wait_create_windows sdl =
     (Returned True,
      sdl\<lparr>windows_created := Some False,
          event_queue := event_queue sdl @ [SDL_USEREVENT_CREATE_WINDOWS]\<rparr>)"
  using assms
  by (auto simp: sdl_wait_create_windows_def ResetEvent_def sdl_push_user_event_def
      WaitForMultipleObjects_2 Let_def)

text \<open>
  Claim C2 does not hold of the code.  After a handshake (\<open>sdl_wait_for_init\<close> has
  returned \<open>TRUE\<close>, so \<open>initialized\<close> is signalled, and nothing ever resets it),
  \<open>sdl_wait_create_windows\<close> returns \<open>TRUE\<close> at once, with the abort event not
  signalled: the command is still in the queue, \<open>windows_created\<close> is not signalled,
  and the session has no window.  The windows exist only once the other thread has
  run \<open>sdl_create_windows\<close>, which is what signals \<open>windows_created\<close>.
\<close>

theorem wait_create_windows_returns_before_creation:
  "sdl_wait_for_init (example_constructed\<lparr>initialized := Some True\<rparr>)
     = (Returned True, example_handshaken)
   \<and> sdl_wait_create_windows example_handshaken
     = (Returned True, example_handshaken\<lparr>event_queue := [SDL_USEREVENT_CREATE_WINDOWS]\<rparr>)
   \<and> abort_event example_handshaken = Some False
   \<and> windows_created example_handshaken = Some False
   \<and> windowCount example_handshaken = 0
   \<and> sdl_windows example_handshaken = Map.empty
   \<and> sdl_create_windows (example_handshaken\<lparr>event_queue := []\<rparr>)
     = (True, example_handshaken
          \<lparr>event_queue := [], windowCount := 1,
           windows := (windows example_handshaken)(0 := \<lparr>window = 1, offset_x = 0, offset_y = 0\<rparr>),
           sdl_windows := [1 \<mapsto> \<lparr>win_w = 1024, win_h = 768, win_flags = {SDL_WINDOW_SHOWN}\<rparr>],
           free_windows := [], windows_created := Some True\<rparr>)"
proof -
  have "sdl_wait_create_windows example_handshaken
     = (Returned True, example_handshaken\<lparr>event_queue := [SDL_USEREVENT_CREATE_WINDOWS]\<rparr>)"
    using sdl_wait_create_windows_initialized [of example_handshaken]
    by (simp add: example_defs)
  then show ?thesis
    by (simp add: sdl_wait_for_init_def sdl_create_windows_def
        for_create_windows.simps SDL_CreateWindow_def
        SetEvent_def WaitForMultipleObjects_2 WAIT_OBJECT_0_def Let_def example_defs)
qed

section \<open>Properties of the window flags\<close>

lemma for_windows_push_effect:
  "for_windows_push command n x sdl = (ok, sdl') \<Longrightarrow>
     resizeable sdl' = resizeable sdl \<and> fullscreen sdl' = fullscreen sdl
     \<and> (ok \<longleftrightarrow> n \<le> x \<or> length (event_queue sdl) + (n - x) \<le> queue_capacity sdl)
     \<and> event_queue sdl' = event_queue sdl @
          take (queue_capacity sdl - length (event_queue sdl))
            (map (\<lambda>y. command (window (windows sdl y))) [x..<n])"
proof (induction command n x sdl rule: for_windows_push.induct)
  case (1 command n x sdl)
  show ?case
  proof (cases "x < n")
    case False
    with "1.prems" show ?thesis
      by (subst (asm) for_windows_push.simps) auto
  next
    case True
    then have u: "[x..<n] = x # [x + 1..<n]" by (simp add: upt_conv_Cons)
    show ?thesis
    proof (cases "length (event_queue sdl) < queue_capacity sdl")
      case False
      with True "1.prems" show ?thesis
        by (subst (asm) for_windows_push.simps) (auto simp: sdl_push_user_event_def)
    next
      case fits: True
      define sdl1 where
        "sdl1 = sdl\<lparr>event_queue := event_queue sdl @ [command (window (windows sdl x))]\<rparr>"
      have p: "sdl_push_user_event (command (window (windows sdl x))) sdl = (True, sdl1)"
        using fits by (simp add: sdl_push_user_event_def sdl1_def)
      from "1.prems" True p have r: "for_windows_push command n (x + 1) sdl1 = (ok, sdl')"
        by (subst (asm) for_windows_push.simps) simp
      have t: "take (queue_capacity sdl - length (event_queue sdl)) (a # as)
          = a # take (queue_capacity sdl - (length (event_queue sdl) + 1)) as" for a :: SDL_Event and as
      proof -
        have "queue_capacity sdl - length (event_queue sdl)
            = Suc (queue_capacity sdl - (length (event_queue sdl) + 1))"
          using fits by simp
        then show ?thesis by simp
      qed
      note ih = "1.IH" [OF True p [symmetric] _ r]
      have q: "length (event_queue sdl1) = length (event_queue sdl) + 1"
        "queue_capacity sdl1 = queue_capacity sdl" "windows sdl1 = windows sdl"
        "resizeable sdl1 = resizeable sdl" "fullscreen sdl1 = fullscreen sdl"
        by (simp_all add: sdl1_def)
      have c1: "resizeable sdl' = resizeable sdl \<and> fullscreen sdl' = fullscreen sdl"
        using ih q by simp
      have c2: "ok \<longleftrightarrow> n \<le> x \<or> length (event_queue sdl) + (n - x) \<le> queue_capacity sdl"
        using ih True fits unfolding q by auto
      have c3: "event_queue sdl' = event_queue sdl @
          take (queue_capacity sdl - length (event_queue sdl))
            (map (\<lambda>y. command (window (windows sdl y))) [x..<n])"
        using ih unfolding q u by (simp add: t sdl1_def)
      from c1 c2 c3 show ?thesis by blast
    qed
  qed
qed

text \<open>
  Claim C10.  \<open>update_resizeable\<close> returns \<open>TRUE\<close> exactly when every window's
  command could be enqueued; then the queue holds, after what it held, one command
  per window in the order of the windows, and \<open>resizeable\<close> is the value sent.
  When it returns \<open>FALSE\<close>, \<open>resizeable\<close> is what it was.  The same holds of
  \<open>update_fullscreen\<close> and \<open>fullscreen\<close>.
\<close>

theorem update_flags_atomic:
  "(update_resizeable sdl enable = (ok, sdl') \<longrightarrow>
      (ok \<longleftrightarrow> windowCount sdl = 0
           \<or> length (event_queue sdl) + windowCount sdl \<le> queue_capacity sdl)
      \<and> (ok \<longrightarrow>
            resizeable sdl' =
              ((DynamicResolutionUpdate (settings sdl) \<and> enable) \<or> SmartSizing (settings sdl))
            \<and> event_queue sdl' = event_queue sdl @
                 map (\<lambda>y. SDL_USEREVENT_WINDOW_RESIZEABLE (window (windows sdl y))
                            ((DynamicResolutionUpdate (settings sdl) \<and> enable)
                               \<or> SmartSizing (settings sdl)))
                   [0..<windowCount sdl])
      \<and> (\<not> ok \<longrightarrow> resizeable sdl' = resizeable sdl))
   \<and> (update_fullscreen sdl enter = (ok2, sdl2) \<longrightarrow>
      (ok2 \<longleftrightarrow> windowCount sdl = 0
           \<or> length (event_queue sdl) + windowCount sdl \<le> queue_capacity sdl)
      \<and> (ok2 \<longrightarrow>
            fullscreen sdl2 = enter
            \<and> event_queue sdl2 = event_queue sdl @
                 map (\<lambda>y. SDL_USEREVENT_WINDOW_FULLSCREEN (window (windows sdl y)) enter)
                   [0..<windowCount sdl])
      \<and> (\<not> ok2 \<longrightarrow> fullscreen sdl2 = fullscreen sdl))"
proof (intro conjI impI)
  let ?use = "(DynamicResolutionUpdate (settings sdl) \<and> enable) \<or> SmartSizing (settings sdl)"
  assume a: "update_resizeable sdl enable = (ok, sdl')"
  obtain r s where l: "for_windows_push (\<lambda>p. SDL_USEREVENT_WINDOW_RESIZEABLE p ?use)
      (windowCount sdl) 0 sdl = (r, s)"
    by (cases "for_windows_push (\<lambda>p. SDL_USEREVENT_WINDOW_RESIZEABLE p ?use) (windowCount sdl) 0 sdl")
  note e = for_windows_push_effect [OF l]
  from a l have ok: "ok = r" and s: "sdl' = (if r then s\<lparr>resizeable := ?use\<rparr> else s)"
    by (auto simp: update_resizeable_def Let_def split: if_splits)
  show "ok \<longleftrightarrow> windowCount sdl = 0
      \<or> length (event_queue sdl) + windowCount sdl \<le> queue_capacity sdl"
    using e ok by simp
  show "resizeable sdl' = ?use" if "ok" using that ok s by simp
  show "event_queue sdl' = event_queue sdl @
      map (\<lambda>y. SDL_USEREVENT_WINDOW_RESIZEABLE (window (windows sdl y)) ?use) [0..<windowCount sdl]"
    if "ok" using that ok s e by auto
  show "resizeable sdl' = resizeable sdl" if "\<not> ok" using that ok s e by simp
next
  assume a: "update_fullscreen sdl enter = (ok2, sdl2)"
  obtain r s where l: "for_windows_push (\<lambda>p. SDL_USEREVENT_WINDOW_FULLSCREEN p enter)
      (windowCount sdl) 0 sdl = (r, s)"
    by (cases "for_windows_push (\<lambda>p. SDL_USEREVENT_WINDOW_FULLSCREEN p enter) (windowCount sdl) 0 sdl")
  note e = for_windows_push_effect [OF l]
  from a l have ok: "ok2 = r" and s: "sdl2 = (if r then s\<lparr>fullscreen := enter\<rparr> else s)"
    by (auto simp: update_fullscreen_def split: if_splits)
  show "ok2 \<longleftrightarrow> windowCount sdl = 0
      \<or> length (event_queue sdl) + windowCount sdl \<le> queue_capacity sdl"
    using e ok by simp
  show "fullscreen sdl2 = enter" if "ok2" using that ok s by simp
  show "event_queue sdl2 = event_queue sdl @
      map (\<lambda>y. SDL_USEREVENT_WINDOW_FULLSCREEN (window (windows sdl y)) enter) [0..<windowCount sdl]"
    if "ok2" using that ok s e by auto
  show "fullscreen sdl2 = fullscreen sdl" if "\<not> ok2" using that ok s e by simp
qed

theorem update_flags_atomic_witness:
  "update_resizeable example_two_windows True
     = (True, example_two_windows
          \<lparr>event_queue := [SDL_USEREVENT_UPDATE, SDL_USEREVENT_UPDATE,
                           SDL_USEREVENT_WINDOW_RESIZEABLE 1 True,
                           SDL_USEREVENT_WINDOW_RESIZEABLE 2 True],
           resizeable := True\<rparr>)
   \<and> update_fullscreen (example_two_windows\<lparr>queue_capacity := 3\<rparr>) True
     = (False, example_two_windows
          \<lparr>queue_capacity := 3,
           event_queue := [SDL_USEREVENT_UPDATE, SDL_USEREVENT_UPDATE,
                           SDL_USEREVENT_WINDOW_FULLSCREEN 1 True]\<rparr>)
   \<and> \<not> fullscreen example_two_windows"
proof -
  let ?T = "example_two_windows\<lparr>queue_capacity := 3\<rparr>"
  have a: "update_resizeable example_two_windows True
     = (True, example_two_windows
          \<lparr>event_queue := [SDL_USEREVENT_UPDATE, SDL_USEREVENT_UPDATE,
                           SDL_USEREVENT_WINDOW_RESIZEABLE 1 True,
                           SDL_USEREVENT_WINDOW_RESIZEABLE 2 True],
           resizeable := True\<rparr>)"
    by (simp add: update_resizeable_def for_windows_push.simps sdl_push_user_event_def example_defs)
  have b: "update_fullscreen ?T True
     = (False, example_two_windows
          \<lparr>queue_capacity := 3,
           event_queue := [SDL_USEREVENT_UPDATE, SDL_USEREVENT_UPDATE,
                           SDL_USEREVENT_WINDOW_FULLSCREEN 1 True]\<rparr>)"
    by (simp add: update_fullscreen_def for_windows_push.simps sdl_push_user_event_def example_defs)
  have c: "\<not> fullscreen example_two_windows" by (simp add: example_defs)
  show ?thesis
    using update_flags_atomic [of example_two_windows True True
        "snd (update_resizeable example_two_windows True)" True False
        "snd (update_fullscreen example_two_windows True)"]
      a b c
    by simp
qed

section \<open>Properties of the coordinate scaler\<close>

lemma sint_word_of_int_32:
  assumes "0 \<le> k" and "k < 2 ^ 31"
  shows "sint (word_of_int k :: 32 word) = k"
  using assms by (simp add: sint_sbintrunc' signed_take_bit_int_eq_self)

lemma scale_axis_forward_range:
  assumes "0 < F" and "0 \<le> W" and "0 \<le> v" and "v \<le> F"
  shows "0 \<le> scale_axis W F False v \<and> scale_axis W F False v \<le> W"
proof -
  have "v * W \<le> F * W" using assms by (simp add: mult_right_mono)
  then have "(v * W) div F \<le> (F * W) div F" by (rule zdiv_mono1) (use assms in simp)
  moreover have "0 \<le> (v * W) div F" using assms by (simp add: pos_imp_zdiv_nonneg_iff)
  ultimately show ?thesis using assms by (simp add: scale_axis_def)
qed

lemma scale_axis_backward_range:
  assumes "0 < W" and "0 \<le> F" and "0 \<le> u" and "u \<le> W"
  shows "0 \<le> scale_axis W F True u \<and> scale_axis W F True u \<le> F"
proof -
  have "u * F \<le> W * F" using assms by (simp add: mult_right_mono)
  then have "(u * F) div W \<le> (W * F) div W" by (rule zdiv_mono1) (use assms in simp)
  moreover have "0 \<le> (u * F) div W" using assms by (simp add: pos_imp_zdiv_nonneg_iff)
  ultimately show ?thesis using assms by (simp add: scale_axis_def)
qed

lemma scale_axis_round_trip:
  assumes "0 < F" and "F \<le> W"
  shows "v - 1 \<le> scale_axis W F True (scale_axis W F False v)
       \<and> scale_axis W F True (scale_axis W F False v) \<le> v"
proof -
  let ?u = "(v * W) div F"
  from assms have W: "0 < W" by simp
  have uF: "?u * F = v * W - (v * W) mod F"
    by (simp add: minus_mod_eq_div_mult)
  have m: "0 \<le> (v * W) mod F" "(v * W) mod F < F"
    using assms(1) by simp_all
  have le: "?u * F \<le> v * W"
    using uF m by linarith
  have "v * W < ?u * F + F"
    using uF m by linarith
  with assms(2) have "(v - 1) * W < ?u * F"
    by (simp add: left_diff_distrib)
  then have "(v - 1) * W div W \<le> ?u * F div W"
    using W by (intro zdiv_mono1) simp_all
  then have lo: "v - 1 \<le> ?u * F div W" using W by simp
  from le have "?u * F div W \<le> v * W div W"
    using W by (intro zdiv_mono1) simp_all
  then have hi: "?u * F div W \<le> v" using W by simp
  from lo hi show ?thesis by (simp add: scale_axis_def)
qed

lemma word_round_trip:
  fixes v W F :: "32 word"
  assumes "0 < sint F" and "sint F \<le> sint W" and "0 \<le> sint v" and "sint v \<le> sint F"
  defines "u \<equiv> (word_of_int (scale_axis (sint W) (sint F) False (sint v)) :: 32 word)"
  defines "v' \<equiv> (word_of_int (scale_axis (sint W) (sint F) True (sint u)) :: 32 word)"
  shows "sint v - 1 \<le> sint v' \<and> sint v' \<le> sint v"
proof -
  have Wb: "sint W < 2 ^ 31" using sint_lt [of W] by simp
  have Fb: "sint F < 2 ^ 31" using sint_lt [of F] by simp
  from assms(1,2) have W0: "0 < sint W" by simp
  have fr: "0 \<le> scale_axis (sint W) (sint F) False (sint v)"
    "scale_axis (sint W) (sint F) False (sint v) \<le> sint W"
    using scale_axis_forward_range [of "sint F" "sint W" "sint v"] assms(1,3,4) W0 by simp_all
  then have su: "sint u = scale_axis (sint W) (sint F) False (sint v)"
    unfolding u_def using Wb by (intro sint_word_of_int_32) simp_all
  have br: "0 \<le> scale_axis (sint W) (sint F) True (sint u)"
    "scale_axis (sint W) (sint F) True (sint u) \<le> sint F"
    using scale_axis_backward_range [of "sint W" "sint F" "sint u"] assms(1) W0 fr su by simp_all
  then have sv: "sint v' = scale_axis (sint W) (sint F) True (sint u)"
    unfolding v'_def using Fb by (intro sint_word_of_int_32) simp_all
  show ?thesis
    unfolding sv su using scale_axis_round_trip [OF assms(1,2), of "sint v"] .
qed

text \<open>
  Claim C9, as amended.  For a window of the session that is at least as large as
  the framebuffer on both axes, and a point \<open>(x, y)\<close> of framebuffer space
  (\<open>0 \<le> x \<le> width\<close>, \<open>0 \<le> y \<le> height\<close>): the scaler succeeds in both directions,
  and scaling the point to window space and back yields on each axis the coordinate
  it started from, or that coordinate less one.
\<close>

theorem scale_round_trip_upscaling:
  assumes "gdi sdl = Some g" and "for_window_by_id sdl windowId 0 = Some W"
    and "0 < sint (width g)" and "sint (width g) \<le> sint (win_w W)"
    and "0 < sint (height g)" and "sint (height g) \<le> sint (win_h W)"
    and "0 \<le> sint x" and "sint x \<le> sint (width g)"
    and "0 \<le> sint y" and "sint y \<le> sint (height g)"
  shows "\<exists>x1 y1 x2 y2.
       sdl_scale_coordinates sdl windowId (x, y) False s1 = (True, x1, y1)
     \<and> sdl_scale_coordinates sdl windowId (x1, y1) True s2 = (True, x2, y2)
     \<and> sint x - 1 \<le> sint x2 \<and> sint x2 \<le> sint x
     \<and> sint y - 1 \<le> sint y2 \<and> sint y2 \<le> sint y"
  using assms(1,2) word_round_trip [OF assms(3,4,7,8)] word_round_trip [OF assms(5,6,9,10)]
  by (simp add: sdl_scale_coordinates_def)

theorem scale_round_trip_upscaling_witness:
  "sdl_scale_coordinates example_painting 1 (101, 50) False True = (True, 126, 65)
   \<and> sdl_scale_coordinates example_painting 1 (126, 65) True True = (True, 100, 49)"
proof -
  let ?W = "\<lparr>win_w = 1280, win_h = 1000, win_flags = {SDL_WINDOW_SHOWN}\<rparr>"
  have w: "for_window_by_id example_painting 1 0 = Some ?W"
    by (simp add: for_window_by_id.simps example_defs)
  have g: "gdi example_painting = Some example_gdi" by (simp add: example_defs)
  have h: "0 < sint (width example_gdi)" "sint (width example_gdi) \<le> sint (win_w ?W)"
    "0 < sint (height example_gdi)" "sint (height example_gdi) \<le> sint (win_h ?W)"
    "0 \<le> sint (101 :: INT32)" "sint (101 :: INT32) \<le> sint (width example_gdi)"
    "0 \<le> sint (50 :: INT32)" "sint (50 :: INT32) \<le> sint (height example_gdi)"
    by (simp_all add: example_defs)
  have a: "sdl_scale_coordinates example_painting 1 (101, 50) False True = (True, 126, 65)"
    using w g by (simp add: sdl_scale_coordinates_def scale_axis_def example_gdi_def)
  have b: "sdl_scale_coordinates example_painting 1 (126, 65) True True = (True, 100, 49)"
    using w g by (simp add: sdl_scale_coordinates_def scale_axis_def example_gdi_def)
  from scale_round_trip_upscaling [OF g w h, of True True] a b show ?thesis by simp
qed

text \<open>
  Claim C9 as stated fails for a window smaller than the framebuffer: with a window
  640 wide on a framebuffer 1024 wide, the coordinate 3 goes to 1 and comes back
  as 1.
\<close>

theorem scale_round_trip_counterexample:
  "sdl_scale_coordinates example_small_window 1 (3, 0) False True = (True, 1, 0)
   \<and> sdl_scale_coordinates example_small_window 1 (1, 0) True True = (True, 1, 0)
   \<and> scale_axis 640 1024 True (scale_axis 640 1024 False 3) = 1
   \<and> \<not> \<bar>sint (1 :: INT32) - sint (3 :: INT32)\<bar> \<le> 1"
proof -
  let ?W = "\<lparr>win_w = 640, win_h = 480, win_flags = {SDL_WINDOW_SHOWN}\<rparr>"
  have w: "for_window_by_id example_small_window 1 0 = Some ?W"
    by (simp add: for_window_by_id.simps example_small_window_def example_defs)
  have g: "gdi example_small_window = Some example_gdi"
    by (simp add: example_small_window_def example_defs)
  show ?thesis
    using w g by (simp add: sdl_scale_coordinates_def scale_axis_def example_gdi_def)
qed
end
